theory Spec2Isabelle
  imports Main "HOL-Library.Sublist"
begin

section \<open>The VM glue of occi\_os\_api: \<^verbatim>\<open>nova_glue/vm.py\<close>\<close>

text \<open>
  The module is an adapter between an OCCI front end and the nova compute API. Its
  functions read their arguments, call the provider and remap the provider's exceptions.
  The provider (\<^verbatim>\<open>COMPUTE_API\<close>, \<^verbatim>\<open>instance_types\<close>), the configuration
  (\<^verbatim>\<open>FLAGS\<close>) and the logger are external: they are a parameter of every function of
  the model, and every call made to them is appended to a history of calls.
\<close>

subsection \<open>Data\<close>

type_synonym os_context = string

text \<open>The instance dictionary returned by the compute API; the module reads \<^verbatim>\<open>vm_state\<close> only.\<close>

record os_instance =
  inst_uuid :: string
  vm_state :: string
  task_state :: "string option"

text \<open>A flavor dictionary of \<^verbatim>\<open>nova.compute.instance_types\<close>.\<close>

record instance_type =
  it_name :: string
  it_flavorid :: string

text \<open>
  Exceptions of \<^verbatim>\<open>nova.exception\<close>. An exception value carries the classes it is an
  instance of (its class and the superclasses), so that \<^verbatim>\<open>except C\<close> is a membership test,
  and the text \<^verbatim>\<open>str(error)\<close> gives.
\<close>

datatype exc_class =
    NotFound | InstanceNotFound | FlavorNotFound | InstanceInvalidState
  | InstancePasswordSetFailed | OtherClass string

datatype nova_exception = Nova_exception (classes: "exc_class list") (str: string)

definition isinstance :: "nova_exception \<Rightarrow> exc_class \<Rightarrow> bool" where
  "isinstance e c = (c \<in> set (classes e))"

text \<open>
  What a function of the module raises to its caller: \<^verbatim>\<open>AttributeError\<close> (the spec's
  ValidationError), \<^verbatim>\<open>occi.exceptions.HTTPError\<close> with its status code, the built-in
  \<^verbatim>\<open>KeyError\<close> and \<^verbatim>\<open>IndexError\<close>, or a provider exception that no handler caught.
\<close>

datatype error =
    AttributeError string
  | HTTPError nat string
  | KeyError string
  | IndexError
  | Provider nova_exception

text \<open>The actions of \<^verbatim>\<open>occi.extensions.infrastructure\<close> that the module names.\<close>

datatype action = START | STOP | SUSPEND | RESTART

text \<open>The keyword arguments of \<^verbatim>\<open>COMPUTE_API.create\<close>, as \<^verbatim>\<open>create_vm\<close> passes them.\<close>

record create_kwargs =
  kw_instance_type :: instance_type
  kw_image_href :: "string option"
  kw_kernel_id :: "string option"
  kw_ramdisk_id :: "string option"
  kw_min_count :: int
  kw_max_count :: int
  kw_display_name :: "string option"
  kw_display_description :: "string option"
  kw_key_name :: "string option"
  kw_key_data :: "string option"
  kw_security_group :: "string list"
  kw_availability_zone :: "string option"
  kw_user_data :: "string option"
  kw_metadata :: "(string \<times> string) list"
  kw_injected_files :: "string list"
  kw_admin_password :: string
  kw_block_device_mapping :: "string option"
  kw_access_ip_v4 :: "string option"
  kw_access_ip_v6 :: "string option"
  kw_requested_networks :: "string option"
  kw_config_drive :: "string option"
  kw_auto_disk_config :: "string option"
  kw_scheduler_hints :: "string option"

text \<open>One entry of the history: a call to the provider, to the clock or to the logger.\<close>

datatype call =
    API_get os_context string
  | API_create os_context create_kwargs
  | API_reboot os_context os_instance string
  | API_resize os_context os_instance string
  | API_confirm_resize os_context os_instance
  | API_set_admin_password os_context os_instance string
  | API_get_vnc_console os_context os_instance string
  | Get_instance_type_by_name string
  | Get_default_instance_type
  | Sleep nat
  | LOG_warn string

text \<open>
  The world outside the module. The provider is stateful and not under the module's
  control, so each of its answers is a function of the calls made so far: an exception of
  \<^verbatim>\<open>nova.exception\<close> or a value. \<^verbatim>\<open>utils.generate_password\<close> draws a random
  password of the length asked for; it calls no provider and is a function of the world.
  The two flags are the options of \<^verbatim>\<open>FLAGS\<close> that the functions below read.
\<close>

record nova =
  compute_get :: "call list \<Rightarrow> os_context \<Rightarrow> string \<Rightarrow> nova_exception + os_instance"
  compute_create ::
    "call list \<Rightarrow> os_context \<Rightarrow> create_kwargs \<Rightarrow> nova_exception + (os_instance list \<times> string)"
  compute_reboot :: "call list \<Rightarrow> os_context \<Rightarrow> os_instance \<Rightarrow> string \<Rightarrow> nova_exception + unit"
  compute_resize :: "call list \<Rightarrow> os_context \<Rightarrow> os_instance \<Rightarrow> string \<Rightarrow> nova_exception + unit"
  compute_confirm_resize :: "call list \<Rightarrow> os_context \<Rightarrow> os_instance \<Rightarrow> nova_exception + unit"
  compute_set_admin_password ::
    "call list \<Rightarrow> os_context \<Rightarrow> os_instance \<Rightarrow> string \<Rightarrow> nova_exception + unit"
  compute_get_vnc_console ::
    "call list \<Rightarrow> os_context \<Rightarrow> os_instance \<Rightarrow> string \<Rightarrow> nova_exception + string"
  get_instance_type_by_name :: "call list \<Rightarrow> string \<Rightarrow> nova_exception + instance_type"
  get_default_instance_type :: "call list \<Rightarrow> nova_exception + instance_type"
  generate_password :: "nat \<Rightarrow> string"
  FLAGS_password_length :: nat
  FLAGS_vnc_enabled :: bool

subsection \<open>Exceptions and the history of calls\<close>

text \<open>
  A computation takes the history and returns the value or the exception raised, with the
  history extended by the calls it made.
\<close>

type_synonym 'a io = "call list \<Rightarrow> (error + 'a) \<times> call list"

definition returnM :: "'a \<Rightarrow> 'a io" where
  "returnM x h = (Inr x, h)"

definition raiseM :: "error \<Rightarrow> 'a io" where
  "raiseM e h = (Inl e, h)"

definition bindM :: "'a io \<Rightarrow> ('a \<Rightarrow> 'b io) \<Rightarrow> 'b io" where
  "bindM m f h = (case m h of (Inl e, h') \<Rightarrow> (Inl e, h') | (Inr x, h') \<Rightarrow> f x h')"

text \<open>\<^verbatim>\<open>try: m except ...: handler\<close>; a handler that does not match re-raises.\<close>

definition tryM :: "'a io \<Rightarrow> (error \<Rightarrow> 'a io) \<Rightarrow> 'a io" where
  "tryM m handler h = (case m h of (Inl e, h') \<Rightarrow> handler e h' | (Inr x, h') \<Rightarrow> (Inr x, h'))"

text \<open>A call to the provider: its answer depends on the history, and the call is recorded.\<close>

definition call_api :: "call \<Rightarrow> (call list \<Rightarrow> nova_exception + 'a) \<Rightarrow> 'a io" where
  "call_api c f h =
     (case f h of Inl e \<Rightarrow> (Inl (Provider e), h @ [c]) | Inr v \<Rightarrow> (Inr v, h @ [c]))"

definition LOG_warnM :: "string \<Rightarrow> unit io" where
  "LOG_warnM msg h = (Inr (), h @ [LOG_warn msg])"

subsection \<open>Constants of nova\<close>

text \<open>
  Modelled from the spec: the modules \<^verbatim>\<open>nova.compute.vm_states\<close> and
  \<^verbatim>\<open>nova.compute.task_states\<close> are not part of the sources; the constants take the
  values the spec's state table and its override rule name.
\<close>

definition vm_states_ACTIVE :: string where "vm_states_ACTIVE = ''active''"
definition vm_states_BUILDING :: string where "vm_states_BUILDING = ''building''"
definition vm_states_PAUSED :: string where "vm_states_PAUSED = ''paused''"
definition vm_states_SUSPENDED :: string where "vm_states_SUSPENDED = ''suspended''"
definition vm_states_STOPPED :: string where "vm_states_STOPPED = ''stopped''"
definition vm_states_RESCUED :: string where "vm_states_RESCUED = ''rescued''"
definition vm_states_ERROR :: string where "vm_states_ERROR = ''error''"
definition vm_states_DELETED :: string where "vm_states_DELETED = ''deleted''"
definition task_states_IMAGE_SNAPSHOT :: string where
  "task_states_IMAGE_SNAPSHOT = ''image snapshotting''"

lemmas nova_constants =
  vm_states_ACTIVE_def vm_states_BUILDING_def vm_states_PAUSED_def vm_states_SUSPENDED_def
  vm_states_STOPPED_def vm_states_RESCUED_def vm_states_ERROR_def vm_states_DELETED_def
  task_states_IMAGE_SNAPSHOT_def

subsection \<open>\<^verbatim>\<open>get_vm\<close> and \<^verbatim>\<open>get_occi_state\<close>\<close>

text \<open>
  \<^verbatim>\<open>
  def get_vm(uid, context):
      try:
          instance = COMPUTE_API.get(context, uid)
      except exception.NotFound:
          raise exceptions.HTTPError(404, 'VM not found!')
      return instance
  \<close>
\<close>

definition get_vm :: "nova \<Rightarrow> string \<Rightarrow> os_context \<Rightarrow> os_instance io" where
  "get_vm nv uid ctx =
     tryM (call_api (API_get ctx uid) (\<lambda>h. compute_get nv h ctx uid))
       (\<lambda>e. case e of
              Provider x \<Rightarrow>
                if isinstance x NotFound then raiseM (HTTPError 404 ''VM not found!'')
                else raiseM e
            | _ \<Rightarrow> raiseM e)"

text \<open>
  The two \<^verbatim>\<open>if\<close> statements of \<^verbatim>\<open>get_occi_state\<close>, on the instance fetched. Both
  read \<^verbatim>\<open>instance['vm_state']\<close>; the second compares it with a task state.
\<close>

definition occi_state_of :: "os_instance \<Rightarrow> string \<times> action list" where
  "occi_state_of inst =
     (let state = ''inactive'';
          actions = [];
          (state, actions) =
            (if vm_state inst \<in> set [vm_states_ACTIVE] then
               (''active'', ((actions @ [STOP]) @ [SUSPEND]) @ [RESTART])
             else if vm_state inst \<in> set [vm_states_BUILDING] then
               (''inactive'', actions)
             else if vm_state inst \<in>
                       set [vm_states_PAUSED, vm_states_SUSPENDED, vm_states_STOPPED] then
               (''inactive'', actions @ [START])
             else if vm_state inst \<in>
                       set [vm_states_RESCUED, vm_states_ERROR, vm_states_DELETED] then
               (''inactive'', actions)
             else (state, actions));
          (state, actions) =
            (if vm_state inst \<in> set [task_states_IMAGE_SNAPSHOT] then (''inactive'', [])
             else (state, actions))
      in (state, actions))"

definition get_occi_state :: "nova \<Rightarrow> string \<Rightarrow> os_context \<Rightarrow> (string \<times> action list) io" where
  "get_occi_state nv uid ctx =
     bindM (get_vm nv uid ctx) (\<lambda>inst. returnM (occi_state_of inst))"

subsection \<open>Resource descriptions\<close>

text \<open>
  Modelled from the spec: the classes \<^verbatim>\<open>occi.core_model.Mixin\<close>,
  \<^verbatim>\<open>os_mixins.ResourceTemplate\<close> and \<^verbatim>\<open>os_mixins.OsTemplate\<close> and the constants
  \<^verbatim>\<open>os_addon.OS_KEY_PAIR_EXT\<close> and \<^verbatim>\<open>os_addon.SEC_GROUP\<close> are not part of the
  sources. A mixin is what \<^verbatim>\<open>create_vm\<close> reads of it: its class (for
  \<^verbatim>\<open>isinstance\<close>; an OsTemplate carries its \<^verbatim>\<open>os_id\<close>), the identity that
  \<^verbatim>\<open>==\<close> compares, its \<^verbatim>\<open>term\<close> and its \<^verbatim>\<open>related\<close> kinds.
\<close>

datatype kind_id = OS_KEY_PAIR_EXT | SEC_GROUP | Kind string string

datatype mixin_class = ResourceTemplate | OsTemplate "string option" | Mixin

record mixin =
  cls :: mixin_class
  ident :: kind_id
  mixin_term :: string
  related :: "kind_id list"

fun is_ResourceTemplate :: "mixin \<Rightarrow> bool" where
  "is_ResourceTemplate m = (case cls m of ResourceTemplate \<Rightarrow> True | _ \<Rightarrow> False)"

fun is_OsTemplate :: "mixin \<Rightarrow> bool" where
  "is_OsTemplate m = (case cls m of OsTemplate _ \<Rightarrow> True | _ \<Rightarrow> False)"

fun os_id :: "mixin \<Rightarrow> string option" where
  "os_id m = (case cls m of OsTemplate i \<Rightarrow> i | _ \<Rightarrow> None)"

record entity =
  attributes :: "string \<Rightarrow> string option"
  mixins :: "mixin list"

text \<open>
  A Python string object: its characters, and whether it is the interned object of these
  characters. Two objects with the same characters are equal (\<^verbatim>\<open>==\<close>,
  \<^verbatim>\<open>in\<close>). A string literal of the module is interned, so an object is
  (\<^verbatim>\<open>is\<close>) the literal only if it is the interned object with the literal's
  characters; a string built at run time, from a request say, is another object.
\<close>

datatype pystr = Interned (chars: string) | Runtime (chars: string)

definition is_literal :: "pystr \<Rightarrow> string \<Rightarrow> bool" where
  "is_literal a lit = (a = Interned lit)"

subsection \<open>\<^verbatim>\<open>create_vm\<close>\<close>

text \<open>The variables that the loop over \<^verbatim>\<open>entity.mixins\<close> assigns.\<close>

record scan =
  resource_template :: "mixin option"
  os_template :: "mixin option"
  key_name :: "string option"
  key_data :: "string option"
  sg_names :: "string list"

definition scan_init :: scan where
  "scan_init = \<lparr> resource_template = None, os_template = None, key_name = None,
                  key_data = None, sg_names = [] \<rparr>"

text \<open>\<^verbatim>\<open>d[k]\<close> raises KeyError for a key that is absent.\<close>

definition getitem :: "(string \<Rightarrow> string option) \<Rightarrow> string \<Rightarrow> error + string" where
  "getitem d k = (case d k of None \<Rightarrow> Inl (KeyError k) | Some v \<Rightarrow> Inr v)"

text \<open>
  One iteration of the loop (lines 82--94): the \<^verbatim>\<open>if/elif\<close> chain, then the separate
  \<^verbatim>\<open>if\<close> on the security group.
\<close>

definition scan_step :: "(string \<Rightarrow> string option) \<Rightarrow> mixin \<Rightarrow> scan \<Rightarrow> error + scan" where
  "scan_step attrs m s =
     (case (if is_ResourceTemplate m then Inr (s\<lparr>resource_template := Some m\<rparr>)
            else if is_OsTemplate m then Inr (s\<lparr>os_template := Some m\<rparr>)
            else if ident m = OS_KEY_PAIR_EXT then
              (case getitem attrs ''org.openstack.credentials.publickey.name'' of
                 Inl e \<Rightarrow> Inl e
               | Inr kn \<Rightarrow>
                   (case getitem attrs ''org.openstack.credentials.publickey.data'' of
                      Inl e \<Rightarrow> Inl e
                    | Inr kd \<Rightarrow> Inr (s\<lparr>key_name := Some kn, key_data := Some kd\<rparr>)))
            else Inr s) of
        Inl e \<Rightarrow> Inl e
      | Inr s1 \<Rightarrow>
          Inr (if SEC_GROUP \<in> set (related m)
               then s1\<lparr>sg_names := sg_names s1 @ [mixin_term m]\<rparr> else s1))"

fun scan_mixins :: "(string \<Rightarrow> string option) \<Rightarrow> mixin list \<Rightarrow> scan \<Rightarrow> error + scan" where
  "scan_mixins attrs [] s = Inr s"
| "scan_mixins attrs (m # ms) s =
     (case scan_step attrs m s of Inl e \<Rightarrow> Inl e | Inr s1 \<Rightarrow> scan_mixins attrs ms s1)"

text \<open>
  The mixins at which the loop reads the two public-key attributes, and the condition
  under which both reads find their key.
\<close>

definition needs_key_pair :: "mixin \<Rightarrow> bool" where
  "needs_key_pair m =
     (\<not> is_ResourceTemplate m \<and> \<not> is_OsTemplate m \<and> ident m = OS_KEY_PAIR_EXT)"

definition key_pair_attrs :: "(string \<Rightarrow> string option) \<Rightarrow> bool" where
  "key_pair_attrs attrs =
     (attrs ''org.openstack.credentials.publickey.name'' \<noteq> None
      \<and> attrs ''org.openstack.credentials.publickey.data'' \<noteq> None)"

text \<open>The arguments of the call at lines 109--133.\<close>

definition create_args ::
  "instance_type \<Rightarrow> mixin \<Rightarrow> string option \<Rightarrow> scan \<Rightarrow> string \<Rightarrow> create_kwargs" where
  "create_args inst_type ost name s password =
     \<lparr> kw_instance_type = inst_type,
       kw_image_href = os_id ost,
       kw_kernel_id = None,
       kw_ramdisk_id = None,
       kw_min_count = 1,
       kw_max_count = 1,
       kw_display_name = name,
       kw_display_description = name,
       kw_key_name = key_name s,
       kw_key_data = key_data s,
       kw_security_group = sg_names s,
       kw_availability_zone = None,
       kw_user_data = None,
       kw_metadata = [],
       kw_injected_files = [],
       kw_admin_password = password,
       kw_block_device_mapping = None,
       kw_access_ip_v4 = None,
       kw_access_ip_v6 = None,
       kw_requested_networks = None,
       kw_config_drive = None,
       kw_auto_disk_config = None,
       kw_scheduler_hints = None \<rparr>"

text \<open>\<^verbatim>\<open>str(error)\<close> in the handler of line 134.\<close>

fun str_error :: "error \<Rightarrow> string" where
  "str_error (AttributeError msg) = msg"
| "str_error (HTTPError code msg) = msg"
| "str_error (KeyError k) = k"
| "str_error IndexError = ''list index out of range''"
| "str_error (Provider x) = str x"

text \<open>The message of lines 104--105, with \<^verbatim>\<open>inst_type['name']\<close> filled in.\<close>

definition default_flavor_warning :: "instance_type \<Rightarrow> string" where
  "default_flavor_warning inst_type =
     ''No resource template was found in the request. '' @ ''Using the default: ''
     @ it_name inst_type"

text \<open>
  \<^verbatim>\<open>create_vm\<close>, lines 58--138. A mixin object is true in a condition, so
  \<^verbatim>\<open>not os_template\<close> holds exactly when the loop found no OsTemplate. The flavor
  lookups are outside the \<^verbatim>\<open>try\<close> block, and so is \<^verbatim>\<open>instances[0]\<close>, which raises
  IndexError on an empty list.
\<close>

definition create_vm :: "nova \<Rightarrow> entity \<Rightarrow> os_context \<Rightarrow> os_instance io" where
  "create_vm nv ent ctx =
     (let name = attributes ent ''occi.compute.hostname'';
          password = generate_password nv (FLAGS_password_length nv)
      in case scan_mixins (attributes ent) (mixins ent) scan_init of
           Inl e \<Rightarrow> raiseM e
         | Inr s \<Rightarrow>
             (case os_template s of
                None \<Rightarrow> raiseM (AttributeError ''Please provide a valid OS Template.'')
              | Some ost \<Rightarrow>
                  bindM
                    (case resource_template s of
                       Some rt \<Rightarrow>
                         call_api (Get_instance_type_by_name (mixin_term rt))
                           (\<lambda>h. get_instance_type_by_name nv h (mixin_term rt))
                     | None \<Rightarrow>
                         bindM (call_api Get_default_instance_type (get_default_instance_type nv))
                           (\<lambda>inst_type.
                              bindM (LOG_warnM (default_flavor_warning inst_type))
                                (\<lambda>_. returnM inst_type)))
                    (\<lambda>inst_type.
                       bindM
                         (tryM (call_api (API_create ctx (create_args inst_type ost name s password))
                                  (\<lambda>h. compute_create nv h ctx
                                          (create_args inst_type ost name s password)))
                            (\<lambda>error. raiseM (AttributeError (str_error error))))
                         (\<lambda>(instances, reservation_id).
                            case instances of
                              [] \<Rightarrow> raiseM IndexError
                            | first # _ \<Rightarrow> returnM first))))"

subsection \<open>\<^verbatim>\<open>restart_vm\<close>\<close>

text \<open>
  \<^verbatim>\<open>
  instance = get_vm(uid, context)
  if method in ('graceful', 'warm'):
      reboot_type = 'SOFT'
  elif method is 'cold':
      reboot_type = 'HARD'
  else:
      raise AttributeError('Unknown method.')
  try:
      COMPUTE_API.reboot(context, instance, reboot_type)
  except exception.InstanceInvalidState:
      raise exceptions.HTTPError(406, 'VM is in an invalid state.')
  \<close>
\<close>

definition restart_vm :: "nova \<Rightarrow> string \<Rightarrow> pystr \<Rightarrow> os_context \<Rightarrow> unit io" where
  "restart_vm nv uid method ctx =
     bindM (get_vm nv uid ctx)
       (\<lambda>inst.
          bindM (if chars method \<in> set [''graceful'', ''warm''] then returnM ''SOFT''
                 else if is_literal method ''cold'' then returnM ''HARD''
                 else raiseM (AttributeError ''Unknown method.''))
            (\<lambda>reboot_type.
               tryM (call_api (API_reboot ctx inst reboot_type)
                       (\<lambda>h. compute_reboot nv h ctx inst reboot_type))
                 (\<lambda>e. case e of
                        Provider x \<Rightarrow>
                          if isinstance x InstanceInvalidState
                          then raiseM (HTTPError 406 ''VM is in an invalid state.'')
                          else raiseM e
                      | _ \<Rightarrow> raiseM e)))"

subsection \<open>\<^verbatim>\<open>set_password_for_vm\<close> and \<^verbatim>\<open>get_vnc\<close>\<close>

text \<open>
  \<^verbatim>\<open>
  instance = get_vm(uid, context)
  try:
      COMPUTE_API.set_admin_password(context, instance, password)
  except InstancePasswordSetFailed as error:
      LOG.warn('Unable to set password - driver might not support it! ' +
               str(error))
  \<close>
\<close>

definition set_password_for_vm :: "nova \<Rightarrow> string \<Rightarrow> string \<Rightarrow> os_context \<Rightarrow> unit io" where
  "set_password_for_vm nv uid password ctx =
     bindM (get_vm nv uid ctx)
       (\<lambda>inst.
          tryM (call_api (API_set_admin_password ctx inst password)
                  (\<lambda>h. compute_set_admin_password nv h ctx inst password))
            (\<lambda>e. case e of
                   Provider x \<Rightarrow>
                     if isinstance x InstancePasswordSetFailed
                     then LOG_warnM (''Unable to set password - driver might not support it! ''
                                     @ str x)
                     else raiseM e
                 | _ \<Rightarrow> raiseM e))"

text \<open>
  The console is \<^verbatim>\<open>None\<close> unless the provider returned one. The fetch is outside
  the \<^verbatim>\<open>try\<close> block.
  \<^verbatim>\<open>
  console = None
  if FLAGS.vnc_enabled:
      instance = get_vm(uid, context)
      try:
          console = COMPUTE_API.get_vnc_console(context, instance, 'novnc')
      except exception.InstanceNotFound:
          LOG.warn('Console info is not available atm!')
  return console
  \<close>
\<close>

definition get_vnc :: "nova \<Rightarrow> string \<Rightarrow> os_context \<Rightarrow> string option io" where
  "get_vnc nv uid ctx =
     (let console = None
      in if FLAGS_vnc_enabled nv then
           bindM (get_vm nv uid ctx)
             (\<lambda>inst.
                tryM (bindM (call_api (API_get_vnc_console ctx inst ''novnc'')
                               (\<lambda>h. compute_get_vnc_console nv h ctx inst ''novnc''))
                        (\<lambda>c. returnM (Some c)))
                  (\<lambda>e. case e of
                         Provider x \<Rightarrow>
                           if isinstance x InstanceNotFound
                           then bindM (LOG_warnM ''Console info is not available atm!'')
                                  (\<lambda>_. returnM console)
                           else raiseM e
                       | _ \<Rightarrow> raiseM e))
         else returnM console)"

subsection \<open>\<^verbatim>\<open>resize_vm\<close>\<close>

text \<open>
  The loop of lines 179--187. Python reads \<^verbatim>\<open>not ready or i < 15\<close> as
  \<^verbatim>\<open>(not ready) or (i < 15)\<close>. The loop may run forever, so it is a partial function:
  \<open>None\<close> is the loop that does not return.
  \<^verbatim>\<open>
  while not ready or i < 15:
      i += 1
      state = get_vm(uid, context)['vm_state']
      if state == 'resized':
          ready = True
      import time
      time.sleep(1)
  \<close>
\<close>

partial_function (option) poll_loop ::
  "nova \<Rightarrow> string \<Rightarrow> os_context \<Rightarrow> bool \<Rightarrow> nat \<Rightarrow> call list
     \<Rightarrow> ((error + unit) \<times> call list) option" where
  "poll_loop nv uid ctx ready i h =
     (if \<not> ready \<or> i < 15 then
        (case get_vm nv uid ctx h of
           (Inl e, h1) \<Rightarrow> Some (Inl e, h1)
         | (Inr inst, h1) \<Rightarrow>
             poll_loop nv uid ctx (if vm_state inst = ''resized'' then True else ready)
               (i + 1) (h1 @ [Sleep 1]))
      else Some (Inr (), h))"

text \<open>The two \<^verbatim>\<open>except\<close> clauses of \<^verbatim>\<open>resize_vm\<close>.\<close>

definition resize_handlers :: "(error + unit) \<times> call list \<Rightarrow> (error + unit) \<times> call list" where
  "resize_handlers rh =
     (case rh of
        (Inl (Provider x), h) \<Rightarrow>
          if isinstance x FlavorNotFound
          then (Inl (AttributeError ''Unable to locate requested flavor.''), h)
          else if isinstance x InstanceInvalidState
          then (Inl (AttributeError (''VM is in an invalid state: '' @ str x)), h)
          else rh
      | _ \<Rightarrow> rh)"

definition resize_vm ::
  "nova \<Rightarrow> string \<Rightarrow> string \<Rightarrow> os_context \<Rightarrow> call list
     \<Rightarrow> ((error + unit) \<times> call list) option" where
  "resize_vm nv uid flavor_name ctx h =
     (case get_vm nv uid ctx h of
        (Inl e, h1) \<Rightarrow> Some (Inl e, h1)
      | (Inr inst, h1) \<Rightarrow>
          map_option resize_handlers
            (case bindM (call_api (Get_instance_type_by_name flavor_name)
                           (\<lambda>h. get_instance_type_by_name nv h flavor_name))
                    (\<lambda>flavor. call_api (API_resize ctx inst (it_flavorid flavor))
                                 (\<lambda>h. compute_resize nv h ctx inst (it_flavorid flavor))) h1 of
               (Inl e, h2) \<Rightarrow> Some (Inl e, h2)
             | (Inr _, h2) \<Rightarrow>
                 (case poll_loop nv uid ctx False 0 h2 of
                    None \<Rightarrow> None
                  | Some (Inl e, h3) \<Rightarrow> Some (Inl e, h3)
                  | Some (Inr _, h3) \<Rightarrow>
                      Some (bindM (get_vm nv uid ctx)
                              (\<lambda>inst. call_api (API_confirm_resize ctx inst)
                                         (\<lambda>h. compute_confirm_resize nv h ctx inst)) h3))))"

subsection \<open>Example providers\<close>

text \<open>A provider that knows every uid; the instance it returns is given.\<close>

definition nova_with :: "os_instance \<Rightarrow> nova" where
  "nova_with inst =
     \<lparr> compute_get = (\<lambda>h c u. Inr inst),
       compute_create = (\<lambda>h c kw. Inr ([inst], ''r-1'')),
       compute_reboot = (\<lambda>h c i t. Inr ()),
       compute_resize = (\<lambda>h c i f. Inr ()),
       compute_confirm_resize = (\<lambda>h c i. Inr ()),
       compute_set_admin_password = (\<lambda>h c i p. Inr ()),
       compute_get_vnc_console = (\<lambda>h c i k. Inr ''console''),
       get_instance_type_by_name = (\<lambda>h n. Inr \<lparr> it_name = n, it_flavorid = ''2'' \<rparr>),
       get_default_instance_type = (\<lambda>h. Inr \<lparr> it_name = ''m1.small'', it_flavorid = ''2'' \<rparr>),
       generate_password = (\<lambda>n. replicate n CHR ''x''),
       FLAGS_password_length = 12,
       FLAGS_vnc_enabled = True \<rparr>"

definition inst_in :: "string \<Rightarrow> string option \<Rightarrow> os_instance" where
  "inst_in vs ts = \<lparr> inst_uuid = ''vm-1'', vm_state = vs, task_state = ts \<rparr>"

text \<open>A provider that knows no instance.\<close>

definition nova_unknown :: nova where
  "nova_unknown =
     (nova_with (inst_in ''active'' None))
       \<lparr> compute_get := (\<lambda>h c u. Inl (Nova_exception [InstanceNotFound, NotFound]
                                          ''Instance could not be found.'')) \<rparr>"

text \<open>A provider on which a resize is complete once \<open>n\<close> calls have been made.\<close>

definition nova_resizing :: "nat \<Rightarrow> nova" where
  "nova_resizing n =
     (nova_with (inst_in ''active'' None))
       \<lparr> compute_get := (\<lambda>h c u. Inr (inst_in (if n \<le> length h then ''resized'' else ''active'')
                                          None)) \<rparr>"

subsection \<open>Example resource descriptions\<close>

definition os_tpl :: "string \<Rightarrow> mixin" where
  "os_tpl img =
     \<lparr> cls = OsTemplate (Some img),
       ident = Kind ''http://schemas.openstack.org/template/os#'' img,
       mixin_term = img,
       related = [Kind ''http://schemas.ogf.org/occi/infrastructure#'' ''os_tpl''] \<rparr>"

definition res_tpl :: "string \<Rightarrow> mixin" where
  "res_tpl flavor =
     \<lparr> cls = ResourceTemplate,
       ident = Kind ''http://schemas.openstack.org/template/resource#'' flavor,
       mixin_term = flavor,
       related = [Kind ''http://schemas.ogf.org/occi/infrastructure#'' ''resource_tpl''] \<rparr>"

definition key_pair_ext :: mixin where
  "key_pair_ext =
     \<lparr> cls = Mixin, ident = OS_KEY_PAIR_EXT, mixin_term = ''public_key'', related = [] \<rparr>"

definition web1 :: "string \<Rightarrow> string option" where
  "web1 = (\<lambda>k. if k = ''occi.compute.hostname'' then Some ''web1'' else None)"

section \<open>Properties\<close>

subsection \<open>The fetch\<close>

lemma get_vm_found:
  "compute_get nv h ctx uid = Inr inst \<Longrightarrow>
   get_vm nv uid ctx h = (Inr inst, h @ [API_get ctx uid])"
  by (simp add: get_vm_def tryM_def call_api_def)

lemma get_occi_state_found:
  "compute_get nv h ctx uid = Inr inst \<Longrightarrow>
   get_occi_state nv uid ctx h = (Inr (occi_state_of inst), h @ [API_get ctx uid])"
  by (simp add: get_occi_state_def bindM_def returnM_def get_vm_found)

lemma get_vm_not_found:
  "compute_get nv h ctx uid = Inl x \<Longrightarrow> isinstance x NotFound \<Longrightarrow>
   get_vm nv uid ctx h = (Inl (HTTPError 404 ''VM not found!''), h @ [API_get ctx uid])"
  by (simp add: get_vm_def tryM_def call_api_def raiseM_def)

lemma get_vm_Inr:
  "get_vm nv uid ctx h = (Inr inst, h1) \<Longrightarrow>
   h1 = h @ [API_get ctx uid] \<and> compute_get nv h ctx uid = Inr inst"
  by (auto simp add: get_vm_def tryM_def call_api_def raiseM_def
        split: sum.splits error.splits if_splits)

lemma get_vm_history: "snd (get_vm nv uid ctx h) = h @ [API_get ctx uid]"
  by (auto simp add: get_vm_def tryM_def call_api_def raiseM_def
        split: sum.splits error.splits if_splits)

subsection \<open>The derived state\<close>

text \<open>
  C1. The claim: whenever the instance's task state is "image snapshotting",
  \<^verbatim>\<open>get_occi_state\<close> returns state inactive with no actions, whatever the
  \<^verbatim>\<open>vm_state\<close>. The code never reads the task state: its override tests
  \<^verbatim>\<open>instance['vm_state']\<close> against \<^verbatim>\<open>task_states.IMAGE_SNAPSHOT\<close>. For an instance
  with \<^verbatim>\<open>vm_state\<close> active and task state image snapshotting it returns active with
  the actions stop, suspend, restart.
\<close>

theorem get_occi_state_snapshot_ignored:
  "get_occi_state (nova_with (inst_in vm_states_ACTIVE (Some task_states_IMAGE_SNAPSHOT)))
     ''vm-1'' ''ctx'' []
   = (Inr (''active'', [STOP, SUSPEND, RESTART]), [API_get ''ctx'' ''vm-1''])"
  by (simp add: get_occi_state_found nova_with_def inst_in_def occi_state_of_def nova_constants)

text \<open>
  C2. For every instance the provider returns, \<^verbatim>\<open>get_occi_state\<close> follows the table:
  \<^verbatim>\<open>vm_state\<close> active gives active with stop, suspend, restart (in this order);
  paused, suspended and stopped give inactive with start; building, rescued, error and
  deleted give inactive with no action. The only call made is the fetch.
\<close>

theorem get_occi_state_table:
  assumes "compute_get nv h ctx uid = Inr inst"
  shows "(vm_state inst = ''active'' \<longrightarrow>
            get_occi_state nv uid ctx h =
              (Inr (''active'', [STOP, SUSPEND, RESTART]), h @ [API_get ctx uid]))
       \<and> (vm_state inst \<in> {''paused'', ''suspended'', ''stopped''} \<longrightarrow>
            get_occi_state nv uid ctx h = (Inr (''inactive'', [START]), h @ [API_get ctx uid]))
       \<and> (vm_state inst \<in> {''building'', ''rescued'', ''error'', ''deleted''} \<longrightarrow>
            get_occi_state nv uid ctx h = (Inr (''inactive'', []), h @ [API_get ctx uid]))"
  using assms
  by (auto simp add: get_occi_state_found occi_state_of_def nova_constants)

theorem get_occi_state_table_witness:
  "get_occi_state (nova_with (inst_in ''active'' None)) ''vm-1'' ''ctx'' [] =
     (Inr (''active'', [STOP, SUSPEND, RESTART]), [API_get ''ctx'' ''vm-1''])
   \<and> get_occi_state (nova_with (inst_in ''paused'' None)) ''vm-1'' ''ctx'' [] =
     (Inr (''inactive'', [START]), [API_get ''ctx'' ''vm-1''])
   \<and> get_occi_state (nova_with (inst_in ''error'' None)) ''vm-1'' ''ctx'' [] =
     (Inr (''inactive'', []), [API_get ''ctx'' ''vm-1''])"
  using get_occi_state_table [of "nova_with (inst_in ''active'' None)" "[]" "''ctx''" "''vm-1''"
          "inst_in ''active'' None"]
        get_occi_state_table [of "nova_with (inst_in ''paused'' None)" "[]" "''ctx''" "''vm-1''"
          "inst_in ''paused'' None"]
        get_occi_state_table [of "nova_with (inst_in ''error'' None)" "[]" "''ctx''" "''vm-1''"
          "inst_in ''error'' None"]
  by (simp add: nova_with_def inst_in_def)

text \<open>
  C10. Whatever \<^verbatim>\<open>vm_state\<close> the provider reports, the state returned is active or
  inactive, never suspended, and a \<^verbatim>\<open>vm_state\<close> that no branch lists gives the default:
  inactive with no action.
\<close>

theorem get_occi_state_range:
  assumes "compute_get nv h ctx uid = Inr inst"
  shows "\<exists>state actions.
           get_occi_state nv uid ctx h = (Inr (state, actions), h @ [API_get ctx uid])
           \<and> (state = ''active'' \<or> state = ''inactive'') \<and> state \<noteq> ''suspended''
           \<and> (vm_state inst \<notin> {vm_states_ACTIVE, vm_states_BUILDING, vm_states_PAUSED,
                                 vm_states_SUSPENDED, vm_states_STOPPED, vm_states_RESCUED,
                                 vm_states_ERROR, vm_states_DELETED}
                \<longrightarrow> (state, actions) = (''inactive'', []))"
  using assms
  by (simp add: get_occi_state_found occi_state_of_def)

theorem get_occi_state_range_witness:
  "get_occi_state (nova_with (inst_in ''shelved'' None)) ''vm-1'' ''ctx'' [] =
     (Inr (''inactive'', []), [API_get ''ctx'' ''vm-1''])"
  using get_occi_state_range [of "nova_with (inst_in ''shelved'' None)" "[]" "''ctx''" "''vm-1''"
          "inst_in ''shelved'' None"]
  by (simp add: nova_with_def inst_in_def nova_constants)

subsection \<open>Creating an instance\<close>

lemma scan_step_templates:
  assumes "scan_step attrs m s = Inr s1"
  shows "os_template s1 = (if is_OsTemplate m then Some m else os_template s)"
    and "resource_template s1 = (if is_ResourceTemplate m then Some m else resource_template s)"
  using assms
  by (auto simp add: scan_step_def split: if_splits sum.splits mixin_class.splits)

lemma scan_mixins_templates:
  assumes "scan_mixins attrs ms s = Inr s'"
  shows "os_template s' =
           (if filter is_OsTemplate ms = [] then os_template s
            else Some (last (filter is_OsTemplate ms)))
       \<and> resource_template s' =
           (if filter is_ResourceTemplate ms = [] then resource_template s
            else Some (last (filter is_ResourceTemplate ms)))"
  using assms
proof (induction ms arbitrary: s)
  case Nil
  then show ?case by simp
next
  case (Cons m ms)
  from Cons.prems obtain s1 where s1: "scan_step attrs m s = Inr s1"
    and rest: "scan_mixins attrs ms s1 = Inr s'"
    by (auto split: sum.splits)
  from Cons.IH [OF rest] scan_step_templates [OF s1]
  show ?case by (simp del: is_OsTemplate.simps is_ResourceTemplate.simps)
qed

lemma scan_step_ok:
  assumes "needs_key_pair m \<longrightarrow> key_pair_attrs attrs"
  shows "\<exists>s1. scan_step attrs m s = Inr s1"
  using assms
  by (auto simp add: scan_step_def needs_key_pair_def key_pair_attrs_def getitem_def
        simp del: is_OsTemplate.simps is_ResourceTemplate.simps)

lemma scan_step_fail:
  assumes "needs_key_pair m" and "\<not> key_pair_attrs attrs"
  shows "\<exists>k. scan_step attrs m s = Inl (KeyError k)"
  using assms
  by (auto simp add: scan_step_def needs_key_pair_def key_pair_attrs_def getitem_def
        simp del: is_OsTemplate.simps is_ResourceTemplate.simps split: option.splits)

lemma scan_mixins_ok:
  assumes "(\<exists>m \<in> set ms. needs_key_pair m) \<longrightarrow> key_pair_attrs attrs"
  shows "\<exists>s'. scan_mixins attrs ms s = Inr s'"
  using assms
proof (induction ms arbitrary: s)
  case Nil
  then show ?case by simp
next
  case (Cons m ms)
  then have "needs_key_pair m \<longrightarrow> key_pair_attrs attrs" by simp
  from scan_step_ok [OF this] obtain s1 where s1: "scan_step attrs m s = Inr s1" by blast
  from Cons.prems have "(\<exists>m \<in> set ms. needs_key_pair m) \<longrightarrow> key_pair_attrs attrs" by simp
  from Cons.IH [OF this] s1 show ?case by simp
qed

lemma scan_mixins_fail:
  assumes "\<exists>m \<in> set ms. needs_key_pair m" and "\<not> key_pair_attrs attrs"
  shows "\<exists>k. scan_mixins attrs ms s = Inl (KeyError k)"
  using assms(1)
proof (induction ms arbitrary: s)
  case Nil
  then show ?case by simp
next
  case (Cons m ms)
  show ?case
  proof (cases "needs_key_pair m")
    case True
    from scan_step_fail [OF True assms(2), of s] show ?thesis by auto
  next
    case False
    then have "needs_key_pair m \<longrightarrow> key_pair_attrs attrs" by simp
    from scan_step_ok [OF this] obtain s1 where s1: "scan_step attrs m s = Inr s1" by blast
    from False Cons.prems have "\<exists>m \<in> set ms. needs_key_pair m" by simp
    from Cons.IH [OF this] s1 show ?thesis by simp
  qed
qed

lemma scan_found:
  assumes "(\<exists>m \<in> set ms. needs_key_pair m) \<longrightarrow> key_pair_attrs attrs"
    and "\<exists>m \<in> set ms. is_OsTemplate m"
  shows "\<exists>s. scan_mixins attrs ms scan_init = Inr s
             \<and> os_template s = Some (last (filter is_OsTemplate ms))
             \<and> resource_template s =
                 (if \<forall>m \<in> set ms. \<not> is_ResourceTemplate m then None
                  else Some (last (filter is_ResourceTemplate ms)))"
proof -
  from scan_mixins_ok [OF assms(1)] obtain s where s: "scan_mixins attrs ms scan_init = Inr s"
    by blast
  from assms(2) have "filter is_OsTemplate ms \<noteq> []"
    by (simp add: filter_empty_conv del: is_OsTemplate.simps)
  with scan_mixins_templates [OF s] s assms(2) show ?thesis
    by (auto simp add: scan_init_def filter_empty_conv
          simp del: is_OsTemplate.simps is_ResourceTemplate.simps)
qed

lemma create_call:
  "bindM (tryM (call_api (API_create ctx kw) (\<lambda>h. compute_create nv h ctx kw))
            (\<lambda>error. raiseM (AttributeError (str_error error))))
     (\<lambda>(instances, reservation_id).
        case instances of [] \<Rightarrow> raiseM IndexError | first # _ \<Rightarrow> returnM first) h
   = (case compute_create nv h ctx kw of
        Inl x \<Rightarrow> Inl (AttributeError (str x))
      | Inr (instances, rid) \<Rightarrow>
          (case instances of [] \<Rightarrow> Inl IndexError | first # _ \<Rightarrow> Inr first),
      h @ [API_create ctx kw])"
  by (simp add: bindM_def tryM_def call_api_def raiseM_def returnM_def
        split: sum.splits prod.splits list.splits)

lemma create_vm_named_flavor:
  assumes "scan_mixins (attributes ent) (mixins ent) scan_init = Inr s"
    and "os_template s = Some ost"
    and "resource_template s = Some rt"
    and "get_instance_type_by_name nv h (mixin_term rt) = Inr flavor"
    and "kw = create_args flavor ost (attributes ent ''occi.compute.hostname'') s
                (generate_password nv (FLAGS_password_length nv))"
  shows "create_vm nv ent ctx h =
           (case compute_create nv (h @ [Get_instance_type_by_name (mixin_term rt)]) ctx kw of
              Inl x \<Rightarrow> Inl (AttributeError (str x))
            | Inr (instances, rid) \<Rightarrow>
                (case instances of [] \<Rightarrow> Inl IndexError | first # _ \<Rightarrow> Inr first),
            h @ [Get_instance_type_by_name (mixin_term rt), API_create ctx kw])"
proof -
  have "create_vm nv ent ctx h =
          bindM (tryM (call_api (API_create ctx kw) (\<lambda>h. compute_create nv h ctx kw))
                   (\<lambda>error. raiseM (AttributeError (str_error error))))
            (\<lambda>(instances, reservation_id).
               case instances of [] \<Rightarrow> raiseM IndexError | first # _ \<Rightarrow> returnM first)
            (h @ [Get_instance_type_by_name (mixin_term rt)])"
    using assms
    by (simp add: create_vm_def Let_def bindM_def [of "call_api _ _"] call_api_def [of "Get_instance_type_by_name _"])
  then show ?thesis by (simp add: create_call)
qed

lemma create_vm_default_flavor:
  assumes "scan_mixins (attributes ent) (mixins ent) scan_init = Inr s"
    and "os_template s = Some ost"
    and "resource_template s = None"
    and "get_default_instance_type nv h = Inr flavor"
    and "kw = create_args flavor ost (attributes ent ''occi.compute.hostname'') s
                (generate_password nv (FLAGS_password_length nv))"
  shows "create_vm nv ent ctx h =
           (case compute_create nv
                   (h @ [Get_default_instance_type, LOG_warn (default_flavor_warning flavor)])
                   ctx kw of
              Inl x \<Rightarrow> Inl (AttributeError (str x))
            | Inr (instances, rid) \<Rightarrow>
                (case instances of [] \<Rightarrow> Inl IndexError | first # _ \<Rightarrow> Inr first),
            h @ [Get_default_instance_type, LOG_warn (default_flavor_warning flavor),
                 API_create ctx kw])"
proof -
  have "create_vm nv ent ctx h =
          bindM (tryM (call_api (API_create ctx kw) (\<lambda>h. compute_create nv h ctx kw))
                   (\<lambda>error. raiseM (AttributeError (str_error error))))
            (\<lambda>(instances, reservation_id).
               case instances of [] \<Rightarrow> raiseM IndexError | first # _ \<Rightarrow> returnM first)
            (h @ [Get_default_instance_type, LOG_warn (default_flavor_warning flavor)])"
    using assms
    by (simp add: create_vm_def Let_def bindM_def [of "bindM _ _"] bindM_def [of "call_api _ _"]
          bindM_def [of "LOG_warnM _"] call_api_def [of Get_default_instance_type]
          LOG_warnM_def returnM_def)
  then show ?thesis by (simp add: create_call)
qed

text \<open>
  A resource description with a key-pair extension mixin and no public-key attributes:
  the loop raises KeyError at \<^verbatim>\<open>entity.attributes[attr]\<close>, so the failure is not the
  AttributeError of the missing OS template.
\<close>

theorem create_vm_key_pair_without_attributes:
  "create_vm (nova_with (inst_in ''building'' None))
     \<lparr> attributes = web1, mixins = [key_pair_ext] \<rparr> ''ctx'' [] =
   (Inl (KeyError ''org.openstack.credentials.publickey.name''), [])"
  by (simp add: create_vm_def scan_step_def key_pair_ext_def getitem_def web1_def raiseM_def)

text \<open>
  C3, amended. For every resource description with no OsTemplate mixin, \<^verbatim>\<open>create_vm\<close>
  fails and the history of calls is unchanged: no call to the provider was made. The
  failure is the AttributeError "Please provide a valid OS Template." whenever the scan of
  the mixins runs to its end, that is unless a key-pair extension mixin is scanned while
  one of the two public-key attributes is absent; in that case the scan itself fails with
  KeyError, before the check of the OS template is reached.
\<close>

theorem create_vm_no_os_template:
  assumes "\<forall>m \<in> set (mixins ent). \<not> is_OsTemplate m"
  shows "(\<exists>e. create_vm nv ent ctx h = (Inl e, h))
       \<and> (((\<exists>m \<in> set (mixins ent). needs_key_pair m) \<longrightarrow> key_pair_attrs (attributes ent)) \<longrightarrow>
            create_vm nv ent ctx h =
              (Inl (AttributeError ''Please provide a valid OS Template.''), h))
       \<and> ((\<exists>m \<in> set (mixins ent). needs_key_pair m) \<and> \<not> key_pair_attrs (attributes ent) \<longrightarrow>
            (\<exists>k. create_vm nv ent ctx h = (Inl (KeyError k), h)))"
proof (cases "(\<exists>m \<in> set (mixins ent). needs_key_pair m) \<longrightarrow> key_pair_attrs (attributes ent)")
  case True
  from scan_mixins_ok [OF True] obtain s where
    s: "scan_mixins (attributes ent) (mixins ent) scan_init = Inr s" by blast
  from assms have "filter is_OsTemplate (mixins ent) = []"
    by (simp add: filter_empty_conv del: is_OsTemplate.simps)
  with scan_mixins_templates [OF s] have "os_template s = None"
    by (simp add: scan_init_def)
  with s have "create_vm nv ent ctx h =
                 (Inl (AttributeError ''Please provide a valid OS Template.''), h)"
    by (simp add: create_vm_def raiseM_def)
  with True show ?thesis by blast
next
  case False
  then have f: "\<exists>m \<in> set (mixins ent). needs_key_pair m" "\<not> key_pair_attrs (attributes ent)"
    by simp_all
  from scan_mixins_fail [OF f] obtain k where
    "scan_mixins (attributes ent) (mixins ent) scan_init = Inl (KeyError k)" by blast
  then have "create_vm nv ent ctx h = (Inl (KeyError k), h)"
    by (simp add: create_vm_def raiseM_def)
  with False show ?thesis by blast
qed

theorem create_vm_no_os_template_witness:
  "create_vm (nova_with (inst_in ''building'' None))
     \<lparr> attributes = web1, mixins = [res_tpl ''m1.small''] \<rparr> ''ctx'' [] =
     (Inl (AttributeError ''Please provide a valid OS Template.''), [])
   \<and> (\<exists>k. create_vm (nova_with (inst_in ''building'' None))
              \<lparr> attributes = web1, mixins = [res_tpl ''m1.small'', key_pair_ext] \<rparr> ''ctx'' [] =
            (Inl (KeyError k), []))"
  using create_vm_no_os_template
          [of "\<lparr> attributes = web1, mixins = [res_tpl ''m1.small''] \<rparr>"
              "nova_with (inst_in ''building'' None)" "''ctx''" "[]"]
        create_vm_no_os_template
          [of "\<lparr> attributes = web1, mixins = [res_tpl ''m1.small'', key_pair_ext] \<rparr>"
              "nova_with (inst_in ''building'' None)" "''ctx''" "[]"]
  by (simp add: res_tpl_def key_pair_ext_def needs_key_pair_def key_pair_attrs_def web1_def)

text \<open>
  C4. With the mixins \<open>[OsTemplate(image-1), ResourceTemplate(m1.small)]\<close>, the hostname
  attribute \<open>web1\<close> and a provider that knows the flavor \<open>m1.small\<close>, the calls
  \<^verbatim>\<open>create_vm\<close> makes are the flavor lookup and exactly one instance creation, whose
  arguments have that flavor, image \<open>image-1\<close>, \<open>web1\<close> as display name and as display
  description, and minimum and maximum count 1; and when the provider returns a list of
  instances, \<^verbatim>\<open>create_vm\<close> returns its first element.
\<close>

theorem create_vm_end_to_end:
  assumes "mixins ent = [m1, m2]"
    and "cls m1 = OsTemplate (Some ''image-1'')"
    and "cls m2 = ResourceTemplate" and "mixin_term m2 = ''m1.small''"
    and "attributes ent ''occi.compute.hostname'' = Some ''web1''"
    and "get_instance_type_by_name nv h ''m1.small'' = Inr flavor"
  shows "\<exists>kw. kw_instance_type kw = flavor \<and> kw_image_href kw = Some ''image-1''
           \<and> kw_display_name kw = Some ''web1'' \<and> kw_display_description kw = Some ''web1''
           \<and> kw_min_count kw = 1 \<and> kw_max_count kw = 1
           \<and> snd (create_vm nv ent ctx h) =
               h @ [Get_instance_type_by_name ''m1.small'', API_create ctx kw]
           \<and> (\<forall>first rest rid.
                 compute_create nv (h @ [Get_instance_type_by_name ''m1.small'']) ctx kw
                   = Inr (first # rest, rid) \<longrightarrow>
                 fst (create_vm nv ent ctx h) = Inr first)"
proof -
  have k: "(\<exists>m \<in> set (mixins ent). needs_key_pair m) \<longrightarrow> key_pair_attrs (attributes ent)"
    using assms(1-3) by (simp add: needs_key_pair_def)
  have o: "\<exists>m \<in> set (mixins ent). is_OsTemplate m" using assms(1,2) by simp
  have fo: "last (filter is_OsTemplate (mixins ent)) = m1" using assms(1-3) by simp
  have fr: "last (filter is_ResourceTemplate (mixins ent)) = m2" using assms(1-3) by simp
  from scan_found [OF k o] obtain s where
    s: "scan_mixins (attributes ent) (mixins ent) scan_init = Inr s"
    and ost: "os_template s = Some m1"
    and rt: "resource_template s = Some m2"
    using assms(1-3) by (auto simp add: fo fr)
  define kw where "kw = create_args flavor m1 (attributes ent ''occi.compute.hostname'') s
                     (generate_password nv (FLAGS_password_length nv))"
  from assms(6) have d: "get_instance_type_by_name nv h (mixin_term m2) = Inr flavor"
    by (simp add: assms(4))
  from create_vm_named_flavor [OF s ost rt d kw_def, of ctx]
  have "snd (create_vm nv ent ctx h) =
          h @ [Get_instance_type_by_name ''m1.small'', API_create ctx kw]
        \<and> (\<forall>first rest rid.
              compute_create nv (h @ [Get_instance_type_by_name ''m1.small'']) ctx kw
                = Inr (first # rest, rid) \<longrightarrow>
              fst (create_vm nv ent ctx h) = Inr first)"
    by (simp add: assms(4))
  moreover have "kw_instance_type kw = flavor \<and> kw_image_href kw = Some ''image-1''
           \<and> kw_display_name kw = Some ''web1'' \<and> kw_display_description kw = Some ''web1''
           \<and> kw_min_count kw = 1 \<and> kw_max_count kw = 1"
    using assms(2,5) by (simp add: kw_def create_args_def)
  ultimately show ?thesis by blast
qed

theorem create_vm_end_to_end_witness:
  "\<exists>kw. kw_instance_type kw = \<lparr> it_name = ''m1.small'', it_flavorid = ''2'' \<rparr>
      \<and> kw_image_href kw = Some ''image-1''
      \<and> kw_display_name kw = Some ''web1'' \<and> kw_display_description kw = Some ''web1''
      \<and> kw_min_count kw = 1 \<and> kw_max_count kw = 1
      \<and> create_vm (nova_with (inst_in ''building'' None))
           \<lparr> attributes = web1, mixins = [os_tpl ''image-1'', res_tpl ''m1.small''] \<rparr>
           ''ctx'' [] =
         (Inr (inst_in ''building'' None),
          [Get_instance_type_by_name ''m1.small'', API_create ''ctx'' kw])"
proof -
  let ?nv = "nova_with (inst_in ''building'' None)"
  let ?ent = "\<lparr> attributes = web1, mixins = [os_tpl ''image-1'', res_tpl ''m1.small''] \<rparr>"
  have c: "compute_create ?nv hh ''ctx'' kw = Inr (inst_in ''building'' None # [], ''r-1'')"
    for hh kw
    by (simp add: nova_with_def)
  from create_vm_end_to_end
         [of ?ent "os_tpl ''image-1''" "res_tpl ''m1.small''" ?nv "[]"
             "\<lparr> it_name = ''m1.small'', it_flavorid = ''2'' \<rparr>" "''ctx''"]
  obtain kw where kw: "kw_instance_type kw = \<lparr> it_name = ''m1.small'', it_flavorid = ''2'' \<rparr>"
      "kw_image_href kw = Some ''image-1''"
      "kw_display_name kw = Some ''web1''" "kw_display_description kw = Some ''web1''"
      "kw_min_count kw = 1" "kw_max_count kw = 1"
      "snd (create_vm ?nv ?ent ''ctx'' []) =
         [] @ [Get_instance_type_by_name ''m1.small'', API_create ''ctx'' kw]"
      "\<forall>first rest rid.
         compute_create ?nv ([] @ [Get_instance_type_by_name ''m1.small'']) ''ctx'' kw
           = Inr (first # rest, rid) \<longrightarrow>
         fst (create_vm ?nv ?ent ''ctx'' []) = Inr first"
    by (auto simp add: os_tpl_def res_tpl_def web1_def nova_with_def)
  from kw(8) c have "fst (create_vm ?nv ?ent ''ctx'' []) = Inr (inst_in ''building'' None)"
    by blast
  with kw(7) have "create_vm ?nv ?ent ''ctx'' [] =
         (Inr (inst_in ''building'' None),
          [Get_instance_type_by_name ''m1.small'', API_create ''ctx'' kw])"
    by (simp add: prod_eq_iff)
  with kw(1-6) show ?thesis by blast
qed

text \<open>
  A resource description with an OsTemplate mixin, no ResourceTemplate mixin and a key-pair
  extension mixin without its attributes: \<^verbatim>\<open>create_vm\<close> fails with KeyError and never
  reaches the default flavor.
\<close>

theorem create_vm_os_template_key_pair_fails:
  "create_vm (nova_with (inst_in ''building'' None))
     \<lparr> attributes = web1, mixins = [os_tpl ''image-1'', key_pair_ext] \<rparr> ''ctx'' [] =
   (Inl (KeyError ''org.openstack.credentials.publickey.name''), [])"
  by (simp add: create_vm_def scan_step_def key_pair_ext_def os_tpl_def getitem_def web1_def
        raiseM_def scan_init_def)

text \<open>
  C6, amended. For every resource description with an OsTemplate mixin whose scan runs to
  its end (no key-pair extension mixin is scanned while a public-key attribute is absent):
  with no ResourceTemplate mixin, \<^verbatim>\<open>create_vm\<close> asks the provider for its default
  flavor, logs the warning and calls the instance creation with that flavor, and it
  returns the first instance whenever the provider returns a list of instances; with a
  ResourceTemplate mixin, the flavor is looked up by the name of the last one in mixin
  order.
\<close>

theorem create_vm_flavor:
  assumes "\<exists>m \<in> set (mixins ent). is_OsTemplate m"
    and "(\<exists>m \<in> set (mixins ent). needs_key_pair m) \<longrightarrow> key_pair_attrs (attributes ent)"
  shows "((\<forall>m \<in> set (mixins ent). \<not> is_ResourceTemplate m) \<longrightarrow>
            (\<forall>flavor. get_default_instance_type nv h = Inr flavor \<longrightarrow>
               (\<exists>kw. kw_instance_type kw = flavor
                  \<and> snd (create_vm nv ent ctx h) =
                      h @ [Get_default_instance_type, LOG_warn (default_flavor_warning flavor),
                           API_create ctx kw]
                  \<and> (\<forall>first rest rid.
                        compute_create nv
                          (h @ [Get_default_instance_type,
                                LOG_warn (default_flavor_warning flavor)]) ctx kw
                          = Inr (first # rest, rid) \<longrightarrow>
                        fst (create_vm nv ent ctx h) = Inr first))))
       \<and> ((\<exists>m \<in> set (mixins ent). is_ResourceTemplate m) \<longrightarrow>
            (\<forall>flavor. get_instance_type_by_name nv h
                         (mixin_term (last (filter is_ResourceTemplate (mixins ent))))
                         = Inr flavor \<longrightarrow>
               (\<exists>kw. kw_instance_type kw = flavor
                  \<and> snd (create_vm nv ent ctx h) =
                      h @ [Get_instance_type_by_name
                             (mixin_term (last (filter is_ResourceTemplate (mixins ent)))),
                           API_create ctx kw]
                  \<and> (\<forall>first rest rid.
                        compute_create nv
                          (h @ [Get_instance_type_by_name
                                  (mixin_term (last (filter is_ResourceTemplate (mixins ent))))])
                          ctx kw = Inr (first # rest, rid) \<longrightarrow>
                        fst (create_vm nv ent ctx h) = Inr first))))"
proof -
  from scan_found [OF assms(2) assms(1)] obtain s where
    s: "scan_mixins (attributes ent) (mixins ent) scan_init = Inr s"
    and ost: "os_template s = Some (last (filter is_OsTemplate (mixins ent)))"
    and rt: "resource_template s =
               (if \<forall>m \<in> set (mixins ent). \<not> is_ResourceTemplate m then None
                else Some (last (filter is_ResourceTemplate (mixins ent))))"
    by blast
  define kw where "kw flavor = create_args flavor (last (filter is_OsTemplate (mixins ent)))
                     (attributes ent ''occi.compute.hostname'') s
                     (generate_password nv (FLAGS_password_length nv))" for flavor
  have kwf: "kw_instance_type (kw flavor) = flavor" for flavor
    by (simp add: kw_def create_args_def)
  show ?thesis
  proof (intro conjI impI allI)
    fix flavor
    assume none: "\<forall>m \<in> set (mixins ent). \<not> is_ResourceTemplate m"
      and d: "get_default_instance_type nv h = Inr flavor"
    from rt none have "resource_template s = None" by simp
    from create_vm_default_flavor [OF s ost this d kw_def, of ctx]
    have "snd (create_vm nv ent ctx h) =
            h @ [Get_default_instance_type, LOG_warn (default_flavor_warning flavor),
                 API_create ctx (kw flavor)]
          \<and> (\<forall>first rest rid.
                compute_create nv
                  (h @ [Get_default_instance_type, LOG_warn (default_flavor_warning flavor)])
                  ctx (kw flavor) = Inr (first # rest, rid) \<longrightarrow>
                fst (create_vm nv ent ctx h) = Inr first)"
      by simp
    with kwf [of flavor]
    show "\<exists>kw. kw_instance_type kw = flavor
            \<and> snd (create_vm nv ent ctx h) =
                h @ [Get_default_instance_type, LOG_warn (default_flavor_warning flavor),
                     API_create ctx kw]
            \<and> (\<forall>first rest rid.
                  compute_create nv
                    (h @ [Get_default_instance_type, LOG_warn (default_flavor_warning flavor)])
                    ctx kw = Inr (first # rest, rid) \<longrightarrow>
                  fst (create_vm nv ent ctx h) = Inr first)"
      by blast
  next
    fix flavor
    let ?rt = "last (filter is_ResourceTemplate (mixins ent))"
    assume some: "\<exists>m \<in> set (mixins ent). is_ResourceTemplate m"
      and d: "get_instance_type_by_name nv h (mixin_term ?rt) = Inr flavor"
    from rt some have "resource_template s = Some ?rt" by auto
    from create_vm_named_flavor [OF s ost this d kw_def, of ctx]
    have "snd (create_vm nv ent ctx h) =
            h @ [Get_instance_type_by_name (mixin_term ?rt), API_create ctx (kw flavor)]
          \<and> (\<forall>first rest rid.
                compute_create nv (h @ [Get_instance_type_by_name (mixin_term ?rt)])
                  ctx (kw flavor) = Inr (first # rest, rid) \<longrightarrow>
                fst (create_vm nv ent ctx h) = Inr first)"
      by simp
    with kwf [of flavor]
    show "\<exists>kw. kw_instance_type kw = flavor
            \<and> snd (create_vm nv ent ctx h) =
                h @ [Get_instance_type_by_name (mixin_term ?rt), API_create ctx kw]
            \<and> (\<forall>first rest rid.
                  compute_create nv (h @ [Get_instance_type_by_name (mixin_term ?rt)])
                    ctx kw = Inr (first # rest, rid) \<longrightarrow>
                  fst (create_vm nv ent ctx h) = Inr first)"
      by blast
  qed
qed

theorem create_vm_flavor_witness:
  "(\<exists>kw. kw_instance_type kw = \<lparr> it_name = ''m1.small'', it_flavorid = ''2'' \<rparr>
       \<and> create_vm (nova_with (inst_in ''building'' None))
           \<lparr> attributes = web1, mixins = [os_tpl ''image-1''] \<rparr> ''ctx'' [] =
         (Inr (inst_in ''building'' None),
          [Get_default_instance_type,
           LOG_warn ''No resource template was found in the request. Using the default: m1.small'',
           API_create ''ctx'' kw]))
   \<and> (\<exists>kw. kw_instance_type kw = \<lparr> it_name = ''m1.large'', it_flavorid = ''2'' \<rparr>
       \<and> create_vm (nova_with (inst_in ''building'' None))
           \<lparr> attributes = web1,
             mixins = [res_tpl ''m1.tiny'', os_tpl ''image-1'', res_tpl ''m1.large''] \<rparr>
           ''ctx'' [] =
         (Inr (inst_in ''building'' None),
          [Get_instance_type_by_name ''m1.large'', API_create ''ctx'' kw]))"
proof -
  let ?nv = "nova_with (inst_in ''building'' None)"
  let ?e1 = "\<lparr> attributes = web1, mixins = [os_tpl ''image-1''] \<rparr>"
  let ?e2 = "\<lparr> attributes = web1,
               mixins = [res_tpl ''m1.tiny'', os_tpl ''image-1'', res_tpl ''m1.large''] \<rparr>"
  let ?small = "\<lparr> it_name = ''m1.small'', it_flavorid = ''2'' \<rparr>"
  let ?large = "\<lparr> it_name = ''m1.large'', it_flavorid = ''2'' \<rparr>"
  have c: "compute_create ?nv hh ''ctx'' kw = Inr (inst_in ''building'' None # [], ''r-1'')"
    for hh kw
    by (simp add: nova_with_def)
  have d: "get_default_instance_type ?nv [] = Inr ?small"
    by (simp add: nova_with_def)
  have n: "get_instance_type_by_name ?nv []
             (mixin_term (last (filter is_ResourceTemplate (mixins ?e2)))) = Inr ?large"
    by (simp add: nova_with_def res_tpl_def os_tpl_def)
  have a1: "\<exists>m \<in> set (mixins ?e1). is_OsTemplate m"
    "(\<exists>m \<in> set (mixins ?e1). needs_key_pair m) \<longrightarrow> key_pair_attrs (attributes ?e1)"
    "\<forall>m \<in> set (mixins ?e1). \<not> is_ResourceTemplate m"
    by (simp_all add: os_tpl_def needs_key_pair_def)
  have a2: "\<exists>m \<in> set (mixins ?e2). is_OsTemplate m"
    "(\<exists>m \<in> set (mixins ?e2). needs_key_pair m) \<longrightarrow> key_pair_attrs (attributes ?e2)"
    "\<exists>m \<in> set (mixins ?e2). is_ResourceTemplate m"
    by (simp_all add: os_tpl_def res_tpl_def needs_key_pair_def)
  from create_vm_flavor [OF a1(1,2), of ?nv "[]" "''ctx''"] a1(3) d
  obtain kw1 where k1: "kw_instance_type kw1 = ?small"
      "snd (create_vm ?nv ?e1 ''ctx'' []) =
         [] @ [Get_default_instance_type, LOG_warn (default_flavor_warning ?small),
               API_create ''ctx'' kw1]"
      "\<forall>first rest rid.
         compute_create ?nv
           ([] @ [Get_default_instance_type, LOG_warn (default_flavor_warning ?small)])
           ''ctx'' kw1 = Inr (first # rest, rid) \<longrightarrow>
         fst (create_vm ?nv ?e1 ''ctx'' []) = Inr first"
    by blast
  from k1(3) c have "fst (create_vm ?nv ?e1 ''ctx'' []) = Inr (inst_in ''building'' None)"
    by blast
  with k1(2) have r1: "create_vm ?nv ?e1 ''ctx'' [] =
         (Inr (inst_in ''building'' None),
          [Get_default_instance_type,
           LOG_warn ''No resource template was found in the request. Using the default: m1.small'',
           API_create ''ctx'' kw1])"
    by (simp add: prod_eq_iff default_flavor_warning_def)
  from create_vm_flavor [OF a2(1,2), of ?nv "[]" "''ctx''"] a2(3) n
  obtain kw2 where k2: "kw_instance_type kw2 = ?large"
      "snd (create_vm ?nv ?e2 ''ctx'' []) =
         [] @ [Get_instance_type_by_name
                 (mixin_term (last (filter is_ResourceTemplate (mixins ?e2)))),
               API_create ''ctx'' kw2]"
      "\<forall>first rest rid.
         compute_create ?nv
           ([] @ [Get_instance_type_by_name
                    (mixin_term (last (filter is_ResourceTemplate (mixins ?e2))))])
           ''ctx'' kw2 = Inr (first # rest, rid) \<longrightarrow>
         fst (create_vm ?nv ?e2 ''ctx'' []) = Inr first"
    by blast
  from k2(3) c have "fst (create_vm ?nv ?e2 ''ctx'' []) = Inr (inst_in ''building'' None)"
    by blast
  with k2(2) have r2: "create_vm ?nv ?e2 ''ctx'' [] =
         (Inr (inst_in ''building'' None),
          [Get_instance_type_by_name ''m1.large'', API_create ''ctx'' kw2])"
    by (simp add: prod_eq_iff res_tpl_def os_tpl_def)
  from k1(1) r1 k2(1) r2 show ?thesis by blast
qed

subsection \<open>Restarting\<close>

text \<open>
  The test \<^verbatim>\<open>method is 'cold'\<close> compares objects: the interned string gives a hard
  reboot, and a string with the same characters built at run time is an unknown method.
\<close>

lemma restart_vm_cold_interned:
  "restart_vm (nova_with (inst_in ''active'' None)) ''vm-1'' (Interned ''cold'') ''ctx'' [] =
     (Inr (), [API_get ''ctx'' ''vm-1'', API_reboot ''ctx'' (inst_in ''active'' None) ''HARD''])"
  by (simp add: restart_vm_def bindM_def get_vm_found nova_with_def returnM_def is_literal_def
        tryM_def call_api_def)

lemma restart_vm_cold_runtime:
  "restart_vm (nova_with (inst_in ''active'' None)) ''vm-1'' (Runtime ''cold'') ''ctx'' [] =
     (Inl (AttributeError ''Unknown method.''), [API_get ''ctx'' ''vm-1''])"
  by (simp add: restart_vm_def bindM_def get_vm_found nova_with_def raiseM_def is_literal_def)

text \<open>
  The method is checked after the instance was fetched: with an unknown method the
  provider has been called once when the AttributeError is raised.
\<close>

theorem restart_vm_unknown_method_fetches:
  "restart_vm (nova_with (inst_in ''active'' None)) ''vm-1'' (Runtime ''reset'') ''ctx'' [] =
     (Inl (AttributeError ''Unknown method.''), [API_get ''ctx'' ''vm-1''])"
  by (simp add: restart_vm_def bindM_def get_vm_found nova_with_def raiseM_def is_literal_def)

text \<open>
  C5, amended. For every uid that the provider's fetch returns an instance for, and for
  every method string: \<^verbatim>\<open>restart_vm\<close> first fetches the instance; for the methods
  graceful and warm it then issues a soft reboot (an invalid-state answer becomes
  HTTPError 406); for a method that is none of graceful, warm and cold it fails with the
  AttributeError "Unknown method." and the reboot is not issued, the fetch being the only
  call made.
\<close>

theorem restart_vm_methods:
  assumes "compute_get nv h ctx uid = Inr inst"
  shows "(chars method \<in> {''graceful'', ''warm''} \<longrightarrow>
            restart_vm nv uid method ctx h =
              (case compute_reboot nv (h @ [API_get ctx uid]) ctx inst ''SOFT'' of
                 Inl x \<Rightarrow> Inl (if isinstance x InstanceInvalidState
                                then HTTPError 406 ''VM is in an invalid state.''
                                else Provider x)
               | Inr u \<Rightarrow> Inr (),
               h @ [API_get ctx uid, API_reboot ctx inst ''SOFT'']))
       \<and> (chars method \<notin> {''graceful'', ''warm'', ''cold''} \<longrightarrow>
            restart_vm nv uid method ctx h =
              (Inl (AttributeError ''Unknown method.''), h @ [API_get ctx uid]))"
proof (intro conjI impI)
  assume "chars method \<in> {''graceful'', ''warm''}"
  then show "restart_vm nv uid method ctx h =
              (case compute_reboot nv (h @ [API_get ctx uid]) ctx inst ''SOFT'' of
                 Inl x \<Rightarrow> Inl (if isinstance x InstanceInvalidState
                                then HTTPError 406 ''VM is in an invalid state.''
                                else Provider x)
               | Inr u \<Rightarrow> Inr (),
               h @ [API_get ctx uid, API_reboot ctx inst ''SOFT''])"
    using assms
    by (auto simp add: restart_vm_def bindM_def get_vm_found returnM_def tryM_def call_api_def
          raiseM_def split: sum.splits)
next
  assume "chars method \<notin> {''graceful'', ''warm'', ''cold''}"
  then show "restart_vm nv uid method ctx h =
              (Inl (AttributeError ''Unknown method.''), h @ [API_get ctx uid])"
    using assms
    by (cases "method") (auto simp add: restart_vm_def bindM_def get_vm_found raiseM_def is_literal_def)
qed

theorem restart_vm_methods_witness:
  "restart_vm (nova_with (inst_in ''active'' None)) ''vm-1'' (Runtime ''warm'') ''ctx'' [] =
     (Inr (), [API_get ''ctx'' ''vm-1'', API_reboot ''ctx'' (inst_in ''active'' None) ''SOFT''])
   \<and> restart_vm (nova_with (inst_in ''active'' None)) ''vm-1'' (Runtime ''halt'') ''ctx'' [] =
     (Inl (AttributeError ''Unknown method.''), [API_get ''ctx'' ''vm-1''])"
  using restart_vm_methods [of "nova_with (inst_in ''active'' None)" "[]" "''ctx''" "''vm-1''"
          "inst_in ''active'' None" "Runtime ''warm''"]
        restart_vm_methods [of "nova_with (inst_in ''active'' None)" "[]" "''ctx''" "''vm-1''"
          "inst_in ''active'' None" "Runtime ''halt''"]
  by (simp add: nova_with_def)

subsection \<open>Resizing\<close>

lemma poll_loop_result:
  assumes "poll_loop nv uid ctx ready i h = Some y"
  shows "(\<exists>t. snd y = h @ t \<and> set t \<subseteq> {API_get ctx uid, Sleep 1})
       \<and> (\<forall>u. fst y = Inr u \<longrightarrow> ready \<or>
            (\<exists>h1 inst. prefix h h1 \<and> prefix (h1 @ [API_get ctx uid]) (snd y)
                        \<and> compute_get nv h1 ctx uid = Inr inst \<and> vm_state inst = ''resized''))"
proof -
  let ?P = "\<lambda>nv uid ctx ready i h y.
       (\<exists>t. snd y = h @ t \<and> set t \<subseteq> {API_get ctx uid, Sleep 1})
       \<and> (\<forall>u. fst y = Inr u \<longrightarrow> ready \<or>
            (\<exists>h1 inst. prefix h h1 \<and> prefix (h1 @ [API_get ctx uid]) (snd y)
                        \<and> compute_get nv h1 ctx uid = Inr inst \<and> vm_state inst = ''resized''))"
  have "?P nv uid ctx ready i h y"
  proof (rule poll_loop.raw_induct [where P = ?P, OF _ assms])
    fix f nv uid ctx ready i h y
    assume IH: "\<And>nv uid ctx ready i h y. f nv uid ctx ready i h = Some y
                  \<Longrightarrow> ?P nv uid ctx ready i h y"
      and step: "(if \<not> ready \<or> i < 15 then
                    (case get_vm nv uid ctx h of
                       (Inl e, h1) \<Rightarrow> Some (Inl e, h1)
                     | (Inr inst, h1) \<Rightarrow>
                         f nv uid ctx (if vm_state inst = ''resized'' then True else ready)
                           (i + 1) (h1 @ [Sleep 1]))
                  else Some (Inr (), h)) = Some y"
    show "?P nv uid ctx ready i h y"
    proof (cases "\<not> ready \<or> i < 15")
      case False
      with step show ?thesis by auto
    next
      case True
      obtain r h1 where g: "get_vm nv uid ctx h = (r, h1)" by (cases "get_vm nv uid ctx h")
      have h1: "h1 = h @ [API_get ctx uid]" using get_vm_history [of nv uid ctx h] g by simp
      show ?thesis
      proof (cases r)
        case (Inl e)
        with step True g h1 have y: "y = (Inl e, h @ [API_get ctx uid])" by auto
        have "\<exists>t. snd y = h @ t \<and> set t \<subseteq> {API_get ctx uid, Sleep 1}"
          unfolding y by (intro exI [of _ "[API_get ctx uid]"]) simp
        then show ?thesis unfolding y by simp
      next
        case (Inr inst)
        with g have cg: "compute_get nv h ctx uid = Inr inst" using get_vm_Inr by blast
        from step True g Inr
        have rec: "f nv uid ctx (if vm_state inst = ''resized'' then True else ready)
                     (i + 1) (h1 @ [Sleep 1]) = Some y"
          by simp
        note ih = IH [OF rec]
        from ih obtain t where t: "snd y = (h1 @ [Sleep 1]) @ t"
          "set t \<subseteq> {API_get ctx uid, Sleep 1}" by blast
        have a: "\<exists>t. snd y = h @ t \<and> set t \<subseteq> {API_get ctx uid, Sleep 1}"
          using t h1 by (intro exI [of _ "API_get ctx uid # Sleep 1 # t"]) auto
        have b: "ready \<or>
              (\<exists>h1 inst. prefix h h1 \<and> prefix (h1 @ [API_get ctx uid]) (snd y)
                          \<and> compute_get nv h1 ctx uid = Inr inst \<and> vm_state inst = ''resized'')"
          if u: "fst y = Inr u" for u
        proof (cases "vm_state inst = ''resized''")
          case True
          have "prefix (h @ [API_get ctx uid]) (snd y)" using t h1 by (simp add: prefix_def)
          with cg True show ?thesis by blast
        next
          case False
          with ih u have "ready \<or>
              (\<exists>h2 inst. prefix (h1 @ [Sleep 1]) h2 \<and> prefix (h2 @ [API_get ctx uid]) (snd y)
                          \<and> compute_get nv h2 ctx uid = Inr inst \<and> vm_state inst = ''resized'')"
            by auto
          moreover have "prefix h h2" if "prefix (h1 @ [Sleep 1]) h2" for h2
            using that h1 by (auto simp add: prefix_def)
          ultimately show ?thesis by blast
        qed
        from a b show ?thesis by blast
      qed
    qed
  qed
  then show ?thesis .
qed

text \<open>On a provider where the resize never completes, the loop does not return.\<close>

lemma poll_loop_never:
  assumes never: "\<forall>h1. \<exists>inst. compute_get nv h1 ctx uid = Inr inst \<and> vm_state inst \<noteq> ''resized''"
  shows "poll_loop nv uid ctx False i h = None"
proof (rule ccontr)
  assume "poll_loop nv uid ctx False i h \<noteq> None"
  then obtain y where y: "poll_loop nv uid ctx False i h = Some y" by blast
  let ?P = "\<lambda>nv' uid' ctx' ready (i::nat) (h::call list) (y:: (error + unit) \<times> call list).
              nv' = nv \<and> uid' = uid \<and> ctx' = ctx \<longrightarrow> ready"
  have "?P nv uid ctx False i h y"
  proof (rule poll_loop.raw_induct [where P = ?P, OF _ y])
    fix f nv' uid' ctx' ready i h y
    assume IH: "\<And>nv' uid' ctx' ready i h y. f nv' uid' ctx' ready i h = Some y
                  \<Longrightarrow> ?P nv' uid' ctx' ready i h y"
      and step: "(if \<not> ready \<or> i < 15 then
                    (case get_vm nv' uid' ctx' h of
                       (Inl e, h1) \<Rightarrow> Some (Inl e, h1)
                     | (Inr inst, h1) \<Rightarrow>
                         f nv' uid' ctx' (if vm_state inst = ''resized'' then True else ready)
                           (i + 1) (h1 @ [Sleep 1]))
                  else Some (Inr (), h)) = Some y"
    show "?P nv' uid' ctx' ready i h y"
    proof (intro impI)
      assume eq: "nv' = nv \<and> uid' = uid \<and> ctx' = ctx"
      show ready
      proof (rule ccontr)
        assume nr: "\<not> ready"
        from never obtain inst where inst: "compute_get nv h ctx uid = Inr inst"
          "vm_state inst \<noteq> ''resized''" by blast
        have g: "get_vm nv uid ctx h = (Inr inst, h @ [API_get ctx uid])"
          using inst(1) by (rule get_vm_found)
        from step nr eq g inst(2)
        have "f nv uid ctx False (i + 1) ((h @ [API_get ctx uid]) @ [Sleep 1]) = Some y"
          by simp
        from IH [OF this] show False by simp
      qed
    qed
  qed
  then show False by simp
qed

lemma poll_loop_ready:
  assumes "\<forall>h. \<exists>inst. compute_get nv h ctx uid = Inr inst"
  shows "i \<le> 15 \<Longrightarrow>
         poll_loop nv uid ctx True i h =
           Some (Inr (), h @ concat (replicate (15 - i) [API_get ctx uid, Sleep 1]))"
proof (induction "15 - i" arbitrary: i h)
  case 0
  then have "i = 15" by simp
  then show ?case by (subst poll_loop.simps) simp
next
  case (Suc n)
  then have i: "i < 15" and n: "n = 15 - (i + 1)" and le: "i + 1 \<le> 15" by simp_all
  have e: "15 - i = Suc (15 - (i + 1))" using i by simp
  from assms obtain inst where "compute_get nv h ctx uid = Inr inst" by blast
  then have g: "get_vm nv uid ctx h = (Inr inst, h @ [API_get ctx uid])" by (rule get_vm_found)
  have "poll_loop nv uid ctx True i h =
          poll_loop nv uid ctx True (i + 1) ((h @ [API_get ctx uid]) @ [Sleep 1])"
    using i g by (subst poll_loop.simps) simp
  also have "\<dots> = Some (Inr (), ((h @ [API_get ctx uid]) @ [Sleep 1])
                              @ concat (replicate (15 - (i + 1)) [API_get ctx uid, Sleep 1]))"
    using Suc.hyps(1) [OF n le] .
  also have "((h @ [API_get ctx uid]) @ [Sleep 1])
               @ concat (replicate (15 - (i + 1)) [API_get ctx uid, Sleep 1])
             = h @ concat (replicate (15 - i) [API_get ctx uid, Sleep 1])"
    unfolding e by simp
  finally show ?case .
qed

lemma nova_resizing_get:
  "compute_get (nova_resizing n) h ctx uid =
     Inr (inst_in (if n \<le> length h then ''resized'' else ''active'') None)"
  by (simp add: nova_resizing_def nova_with_def)

lemma poll_loop_completes:
  "poll_loop (nova_resizing 4) ''vm-1'' ''ctx'' False 0
     [API_get ''ctx'' ''vm-1'', Get_instance_type_by_name ''m1.large'',
      API_resize ''ctx'' (inst_in ''active'' None) ''2''] =
   Some (Inr (),
         [API_get ''ctx'' ''vm-1'', Get_instance_type_by_name ''m1.large'',
          API_resize ''ctx'' (inst_in ''active'' None) ''2'']
         @ concat (replicate 15 [API_get ''ctx'' ''vm-1'', Sleep 1]))"
proof -
  let ?N = "nova_resizing 4"
  let ?h3 = "[API_get ''ctx'' ''vm-1'', Get_instance_type_by_name ''m1.large'',
              API_resize ''ctx'' (inst_in ''active'' None) ''2'']"
  let ?p = "[API_get ''ctx'' ''vm-1'', Sleep 1]"
  have s1: "poll_loop ?N ''vm-1'' ''ctx'' False 0 ?h3 =
            poll_loop ?N ''vm-1'' ''ctx'' False (Suc 0) (?h3 @ ?p)"
    by (subst poll_loop.simps)
       (simp add: get_vm_found [OF nova_resizing_get] inst_in_def)
  have s2: "poll_loop ?N ''vm-1'' ''ctx'' False (Suc 0) (?h3 @ ?p) =
            poll_loop ?N ''vm-1'' ''ctx'' True (Suc (Suc 0)) ((?h3 @ ?p) @ ?p)"
    by (subst poll_loop.simps)
       (simp add: get_vm_found [OF nova_resizing_get] inst_in_def)
  have s3: "poll_loop ?N ''vm-1'' ''ctx'' True (Suc (Suc 0)) ((?h3 @ ?p) @ ?p) =
            Some (Inr (), ((?h3 @ ?p) @ ?p) @ concat (replicate (15 - Suc (Suc 0)) ?p))"
    by (rule poll_loop_ready) (simp_all add: nova_resizing_get)
  have "((?h3 @ ?p) @ ?p) @ concat (replicate (15 - Suc (Suc 0)) ?p) = ?h3 @ concat (replicate 15 ?p)"
    by (simp add: numeral_eq_Suc)
  with s1 s2 s3 show ?thesis by simp
qed

lemma resize_vm_run:
  assumes "compute_get nv h ctx uid = Inr inst"
    and "get_instance_type_by_name nv (h @ [API_get ctx uid]) flavor_name = Inr flavor"
    and "compute_resize nv (h @ [API_get ctx uid, Get_instance_type_by_name flavor_name])
           ctx inst (it_flavorid flavor) = Inr ()"
    and "poll_loop nv uid ctx False 0
           (h @ [API_get ctx uid, Get_instance_type_by_name flavor_name,
                 API_resize ctx inst (it_flavorid flavor)]) = Some (Inr (), h3)"
    and "compute_get nv h3 ctx uid = Inr inst2"
    and "compute_confirm_resize nv (h3 @ [API_get ctx uid]) ctx inst2 = Inr ()"
  shows "resize_vm nv uid flavor_name ctx h =
           Some (Inr (), h3 @ [API_get ctx uid, API_confirm_resize ctx inst2])"
  using assms
  by (simp add: resize_vm_def get_vm_found bindM_def call_api_def resize_handlers_def)

lemma resize_vm_completes:
  "resize_vm (nova_resizing 4) ''vm-1'' ''m1.large'' ''ctx'' [] =
     Some (Inr (),
           ([API_get ''ctx'' ''vm-1'', Get_instance_type_by_name ''m1.large'',
            API_resize ''ctx'' (inst_in ''active'' None) ''2'']
           @ concat (replicate 15 [API_get ''ctx'' ''vm-1'', Sleep 1]))
           @ [API_get ''ctx'' ''vm-1'', API_confirm_resize ''ctx'' (inst_in ''resized'' None)])"
proof (rule resize_vm_run [where inst = "inst_in ''active'' None"
                            and flavor = "\<lparr> it_name = ''m1.large'', it_flavorid = ''2'' \<rparr>"])
  show "compute_get (nova_resizing 4) [] ''ctx'' ''vm-1'' = Inr (inst_in ''active'' None)"
    by (simp add: nova_resizing_get)
  show "get_instance_type_by_name (nova_resizing 4) ([] @ [API_get ''ctx'' ''vm-1'']) ''m1.large''
          = Inr \<lparr> it_name = ''m1.large'', it_flavorid = ''2'' \<rparr>"
    by (simp add: nova_resizing_def nova_with_def)
  show "compute_resize (nova_resizing 4)
          ([] @ [API_get ''ctx'' ''vm-1'', Get_instance_type_by_name ''m1.large''])
          ''ctx'' (inst_in ''active'' None)
          (it_flavorid \<lparr> it_name = ''m1.large'', it_flavorid = ''2'' \<rparr>) = Inr ()"
    by (simp add: nova_resizing_def nova_with_def)
  show "poll_loop (nova_resizing 4) ''vm-1'' ''ctx'' False 0
          ([] @ [API_get ''ctx'' ''vm-1'', Get_instance_type_by_name ''m1.large'',
                 API_resize ''ctx'' (inst_in ''active'' None)
                   (it_flavorid \<lparr> it_name = ''m1.large'', it_flavorid = ''2'' \<rparr>)]) =
        Some (Inr (),
              [API_get ''ctx'' ''vm-1'', Get_instance_type_by_name ''m1.large'',
               API_resize ''ctx'' (inst_in ''active'' None) ''2'']
              @ concat (replicate 15 [API_get ''ctx'' ''vm-1'', Sleep 1]))"
    using poll_loop_completes by simp
  show "compute_get (nova_resizing 4)
          ([API_get ''ctx'' ''vm-1'', Get_instance_type_by_name ''m1.large'',
            API_resize ''ctx'' (inst_in ''active'' None) ''2'']
           @ concat (replicate 15 [API_get ''ctx'' ''vm-1'', Sleep 1])) ''ctx'' ''vm-1''
        = Inr (inst_in ''resized'' None)"
    by (simp add: nova_resizing_get length_concat sum_list_replicate)
  show "compute_confirm_resize (nova_resizing 4)
          (([API_get ''ctx'' ''vm-1'', Get_instance_type_by_name ''m1.large'',
            API_resize ''ctx'' (inst_in ''active'' None) ''2'']
           @ concat (replicate 15 [API_get ''ctx'' ''vm-1'', Sleep 1]))
           @ [API_get ''ctx'' ''vm-1'']) ''ctx'' (inst_in ''resized'' None) = Inr ()"
    by (simp add: nova_resizing_def nova_with_def)
qed

lemma resize_handlers_history: "resize_handlers (r0, h) = (r, h') \<Longrightarrow> h' = h"
  by (auto simp add: resize_handlers_def split: sum.splits error.splits if_splits)

lemma resize_request_history:
  assumes "bindM (call_api (Get_instance_type_by_name flavor_name) f)
             (\<lambda>flavor. call_api (API_resize ctx inst (it_flavorid flavor)) (g flavor)) h
           = (r, h')"
  shows "\<exists>t. h' = h @ t \<and> (\<forall>j. API_confirm_resize ctx j \<notin> set t)"
proof (cases "f h")
  case (Inl e)
  with assms have "h' = h @ [Get_instance_type_by_name flavor_name]"
    by (simp add: bindM_def call_api_def)
  then show ?thesis by simp
next
  case (Inr flavor)
  with assms have "h' = h @ [Get_instance_type_by_name flavor_name,
                              API_resize ctx inst (it_flavorid flavor)]"
    by (auto simp add: bindM_def call_api_def split: sum.splits)
  then show ?thesis by simp
qed

lemma confirm_history:
  assumes "bindM (get_vm nv uid ctx)
             (\<lambda>inst. call_api (API_confirm_resize ctx inst)
                        (\<lambda>h. compute_confirm_resize nv h ctx inst)) h = (r, h')"
  shows "h' = h @ [API_get ctx uid] \<or> (\<exists>j. h' = h @ [API_get ctx uid, API_confirm_resize ctx j])"
proof -
  obtain r4 h4 where g4: "get_vm nv uid ctx h = (r4, h4)" by (cases "get_vm nv uid ctx h")
  have h4: "h4 = h @ [API_get ctx uid]" using get_vm_history [of nv uid ctx h] g4 by simp
  show ?thesis
  proof (cases r4)
    case (Inl e)
    with assms g4 h4 show ?thesis by (simp add: bindM_def)
  next
    case (Inr inst2)
    with assms g4 h4 have "h' = h @ [API_get ctx uid, API_confirm_resize ctx inst2]"
      by (auto simp add: bindM_def call_api_def split: sum.splits)
    then show ?thesis by blast
  qed
qed

lemma resize_vm_outcome:
  assumes "resize_vm nv uid flavor_name ctx h = Some (r, h')"
  shows "(\<exists>t. h' = h @ t \<and> (\<forall>j. API_confirm_resize ctx j \<notin> set t))
       \<or> (\<exists>h0 h2 u j t. prefix h h0 \<and> poll_loop nv uid ctx False 0 h0 = Some (Inr u, h2)
              \<and> h2 = h @ t \<and> (\<forall>j. API_confirm_resize ctx j \<notin> set t)
              \<and> h' = h2 @ [API_get ctx uid, API_confirm_resize ctx j])"
proof -
  obtain r0 h1 where g: "get_vm nv uid ctx h = (r0, h1)" by (cases "get_vm nv uid ctx h")
  have h1: "h1 = h @ [API_get ctx uid]" using get_vm_history [of nv uid ctx h] g by simp
  show ?thesis
  proof (cases r0)
    case (Inl e)
    with assms g h1 have "h' = h @ [API_get ctx uid]" by (simp add: resize_vm_def)
    then show ?thesis by simp
  next
    case r0: (Inr inst)
    define req where "req = bindM (call_api (Get_instance_type_by_name flavor_name)
                         (\<lambda>h. get_instance_type_by_name nv h flavor_name))
                  (\<lambda>flavor. call_api (API_resize ctx inst (it_flavorid flavor))
                               (\<lambda>h. compute_resize nv h ctx inst (it_flavorid flavor)))"
    define fin where "fin = bindM (get_vm nv uid ctx)
                              (\<lambda>inst. call_api (API_confirm_resize ctx inst)
                                         (\<lambda>h. compute_confirm_resize nv h ctx inst))"
    have unf: "map_option resize_handlers
            (case req h1 of
               (Inl e, h2) \<Rightarrow> Some (Inl e, h2)
             | (Inr _, h2) \<Rightarrow>
                 (case poll_loop nv uid ctx False 0 h2 of
                    None \<Rightarrow> None
                  | Some (Inl e, h3) \<Rightarrow> Some (Inl e, h3)
                  | Some (Inr _, h3) \<Rightarrow> Some (fin h3))) = Some (r, h')"
      using assms g r0 unfolding resize_vm_def req_def fin_def by simp
    obtain r1 h2 where q: "req h1 = (r1, h2)" by (cases "req h1")
    from resize_request_history [OF q [unfolded req_def]]
    obtain t1 where t1: "h2 = h1 @ t1" "\<forall>j. API_confirm_resize ctx j \<notin> set t1"
      by blast
    have h2: "h2 = h @ (API_get ctx uid # t1)"
      "\<forall>j. API_confirm_resize ctx j \<notin> set (API_get ctx uid # t1)"
      using t1 h1 by simp_all
    show ?thesis
    proof (cases r1)
      case (Inl e)
      with unf q have "resize_handlers (Inl e, h2) = (r, h')" by simp
      then have "h' = h2" by (rule resize_handlers_history)
      with h2 show ?thesis by blast
    next
      case r1: (Inr u1)
      with unf q
      have m: "map_option resize_handlers
                 (case poll_loop nv uid ctx False 0 h2 of
                    None \<Rightarrow> None
                  | Some (Inl e, h3) \<Rightarrow> Some (Inl e, h3)
                  | Some (Inr _, h3) \<Rightarrow> Some (fin h3)) = Some (r, h')"
        by simp
      then obtain y where p0: "poll_loop nv uid ctx False 0 h2 = Some y"
        by (cases "poll_loop nv uid ctx False 0 h2") simp_all
      obtain r3 h3 where y: "y = (r3, h3)" by (cases y)
      note p = p0 [unfolded y]
      from poll_loop_result [OF p] obtain t3 where t3: "h3 = h2 @ t3"
        "set t3 \<subseteq> {API_get ctx uid, Sleep 1}" by auto
      have h3: "h3 = h @ (API_get ctx uid # t1 @ t3)"
        using t3 h2 by simp
      have n3: "\<forall>j. API_confirm_resize ctx j \<notin> set (API_get ctx uid # t1 @ t3)"
        using t3(2) h2(2) by auto
      show ?thesis
      proof (cases r3)
        case (Inl e)
        with m p have "resize_handlers (Inl e, h3) = (r, h')" by simp
        then have "h' = h3" by (rule resize_handlers_history)
        with h3 n3 show ?thesis by blast
      next
        case r3: (Inr u)
        obtain r4 h4 where f4: "fin h3 = (r4, h4)" by (cases "fin h3")
        with m p r3 have "resize_handlers (r4, h4) = (r, h')" by simp
        then have e: "h' = h4" by (rule resize_handlers_history)
        from confirm_history [OF f4 [unfolded fin_def]]
        show ?thesis
        proof
          assume "h4 = h3 @ [API_get ctx uid]"
          with e h3 have "h' = h @ (API_get ctx uid # t1 @ t3 @ [API_get ctx uid])" by simp
          moreover have
            "\<forall>j. API_confirm_resize ctx j \<notin> set (API_get ctx uid # t1 @ t3 @ [API_get ctx uid])"
            using n3 by simp
          ultimately show ?thesis by blast
        next
          assume "\<exists>j. h4 = h3 @ [API_get ctx uid, API_confirm_resize ctx j]"
          then obtain j where "h' = h3 @ [API_get ctx uid, API_confirm_resize ctx j]"
            using e by blast
          moreover have "prefix h h2" using h2(1) by (simp add: prefix_def)
          moreover note p [unfolded r3] h3 n3
          ultimately show ?thesis by blast
        qed
      qed
    qed
  qed
qed

text \<open>
  C7. The loop of \<^verbatim>\<open>resize_vm\<close> is not left through its counter: whenever it exits,
  one of its fetches was answered with \<^verbatim>\<open>vm_state\<close> resized. The confirm-resize
  call is made only after the loop has exited (it is the last call, preceded by the loop's
  history and one more fetch). And when every fetch is answered with an instance whose
  \<^verbatim>\<open>vm_state\<close> is not resized, \<^verbatim>\<open>resize_vm\<close> does not return.
\<close>

theorem resize_vm_polling:
  "(\<forall>u h'. poll_loop nv uid ctx False 0 h = Some (Inr u, h') \<longrightarrow>
      (\<exists>h1 inst. prefix h h1 \<and> prefix (h1 @ [API_get ctx uid]) h'
                  \<and> compute_get nv h1 ctx uid = Inr inst \<and> vm_state inst = ''resized''))
   \<and> (\<forall>r h' inst'. resize_vm nv uid flavor_name ctx h = Some (r, h')
                     \<and> API_confirm_resize ctx inst' \<in> set (drop (length h) h') \<longrightarrow>
      (\<exists>h0 h2 u. prefix h h0 \<and> poll_loop nv uid ctx False 0 h0 = Some (Inr u, h2)
                  \<and> h' = h2 @ [API_get ctx uid, API_confirm_resize ctx inst']))
   \<and> ((\<exists>inst flavor. compute_get nv h ctx uid = Inr inst
          \<and> get_instance_type_by_name nv (h @ [API_get ctx uid]) flavor_name = Inr flavor
          \<and> compute_resize nv (h @ [API_get ctx uid, Get_instance_type_by_name flavor_name])
                ctx inst (it_flavorid flavor) = Inr ())
       \<and> (\<forall>h1. \<exists>inst. compute_get nv h1 ctx uid = Inr inst \<and> vm_state inst \<noteq> ''resized'')
       \<longrightarrow> resize_vm nv uid flavor_name ctx h = None)"
proof (intro conjI allI impI)
  fix u h'
  assume "poll_loop nv uid ctx False 0 h = Some (Inr u, h')"
  from poll_loop_result [OF this]
  show "\<exists>h1 inst. prefix h h1 \<and> prefix (h1 @ [API_get ctx uid]) h'
                  \<and> compute_get nv h1 ctx uid = Inr inst \<and> vm_state inst = ''resized''"
    by simp
next
  fix r h' inst'
  assume a: "resize_vm nv uid flavor_name ctx h = Some (r, h')
             \<and> API_confirm_resize ctx inst' \<in> set (drop (length h) h')"
  from resize_vm_outcome [of nv uid flavor_name ctx h r h'] a
  consider (none) t where "h' = h @ t" "\<forall>j. API_confirm_resize ctx j \<notin> set t"
    | (confirmed) h0 h2 u j t where "prefix h h0"
        "poll_loop nv uid ctx False 0 h0 = Some (Inr u, h2)" "h2 = h @ t"
        "\<forall>j. API_confirm_resize ctx j \<notin> set t"
        "h' = h2 @ [API_get ctx uid, API_confirm_resize ctx j]"
    by blast
  then show "\<exists>h0 h2 u. prefix h h0 \<and> poll_loop nv uid ctx False 0 h0 = Some (Inr u, h2)
                  \<and> h' = h2 @ [API_get ctx uid, API_confirm_resize ctx inst']"
  proof cases
    case none
    with a show ?thesis by simp
  next
    case confirmed
    with a have "j = inst'" by auto
    with confirmed show ?thesis by blast
  qed
next
  assume a: "(\<exists>inst flavor. compute_get nv h ctx uid = Inr inst
          \<and> get_instance_type_by_name nv (h @ [API_get ctx uid]) flavor_name = Inr flavor
          \<and> compute_resize nv (h @ [API_get ctx uid, Get_instance_type_by_name flavor_name])
                ctx inst (it_flavorid flavor) = Inr ())
       \<and> (\<forall>h1. \<exists>inst. compute_get nv h1 ctx uid = Inr inst \<and> vm_state inst \<noteq> ''resized'')"
  then obtain inst flavor where pre: "compute_get nv h ctx uid = Inr inst"
      "get_instance_type_by_name nv (h @ [API_get ctx uid]) flavor_name = Inr flavor"
      "compute_resize nv (h @ [API_get ctx uid, Get_instance_type_by_name flavor_name])
                ctx inst (it_flavorid flavor) = Inr ()"
    by blast
  from a have never:
    "\<forall>h1. \<exists>inst. compute_get nv h1 ctx uid = Inr inst \<and> vm_state inst \<noteq> ''resized''"
    by blast
  show "resize_vm nv uid flavor_name ctx h = None"
    using pre
    by (simp add: resize_vm_def get_vm_found bindM_def call_api_def poll_loop_never [OF never])
qed

theorem resize_vm_polling_witness:
  "(\<exists>h1 inst.
      prefix [API_get ''ctx'' ''vm-1'', Get_instance_type_by_name ''m1.large'',
              API_resize ''ctx'' (inst_in ''active'' None) ''2''] h1
      \<and> prefix (h1 @ [API_get ''ctx'' ''vm-1''])
           ([API_get ''ctx'' ''vm-1'', Get_instance_type_by_name ''m1.large'',
             API_resize ''ctx'' (inst_in ''active'' None) ''2'']
            @ concat (replicate 15 [API_get ''ctx'' ''vm-1'', Sleep 1]))
      \<and> compute_get (nova_resizing 4) h1 ''ctx'' ''vm-1'' = Inr inst
      \<and> vm_state inst = ''resized'')
   \<and> (\<exists>h0 h2 u.
        poll_loop (nova_resizing 4) ''vm-1'' ''ctx'' False 0 h0 = Some (Inr u, h2)
        \<and> resize_vm (nova_resizing 4) ''vm-1'' ''m1.large'' ''ctx'' [] =
            Some (Inr (), h2 @ [API_get ''ctx'' ''vm-1'',
                                API_confirm_resize ''ctx'' (inst_in ''resized'' None)]))
   \<and> resize_vm (nova_with (inst_in ''active'' None)) ''vm-1'' ''m1.large'' ''ctx'' [] = None"
proof -
  let ?h3 = "[API_get ''ctx'' ''vm-1'', Get_instance_type_by_name ''m1.large'',
              API_resize ''ctx'' (inst_in ''active'' None) ''2'']"
  let ?polls = "concat (replicate 15 [API_get ''ctx'' ''vm-1'', Sleep 1])"
  let ?fin = "[API_get ''ctx'' ''vm-1'', API_confirm_resize ''ctx'' (inst_in ''resized'' None)]"
  note a = resize_vm_polling [of "nova_resizing 4" "''vm-1''" "''ctx''" ?h3 "''m1.large''"]
  note b = resize_vm_polling [of "nova_resizing 4" "''vm-1''" "''ctx''" "[]" "''m1.large''"]
  note c = resize_vm_polling
             [of "nova_with (inst_in ''active'' None)" "''vm-1''" "''ctx''" "[]" "''m1.large''"]
  from a poll_loop_completes
  have 1: "\<exists>h1 inst. prefix ?h3 h1 \<and> prefix (h1 @ [API_get ''ctx'' ''vm-1'']) (?h3 @ ?polls)
             \<and> compute_get (nova_resizing 4) h1 ''ctx'' ''vm-1'' = Inr inst
             \<and> vm_state inst = ''resized''"
    by blast
  have m: "API_confirm_resize ''ctx'' (inst_in ''resized'' None)
             \<in> set (drop (length ([]::call list)) ((?h3 @ ?polls) @ ?fin))"
    by simp
  from b resize_vm_completes m
  obtain h0 h2 u where
    "poll_loop (nova_resizing 4) ''vm-1'' ''ctx'' False 0 h0 = Some (Inr u, h2)"
    "(?h3 @ ?polls) @ ?fin = h2 @ ?fin"
    by blast
  with resize_vm_completes
  have 2: "\<exists>h0 h2 u.
        poll_loop (nova_resizing 4) ''vm-1'' ''ctx'' False 0 h0 = Some (Inr u, h2)
        \<and> resize_vm (nova_resizing 4) ''vm-1'' ''m1.large'' ''ctx'' [] = Some (Inr (), h2 @ ?fin)"
    by auto
  have "(\<exists>inst flavor. compute_get (nova_with (inst_in ''active'' None)) [] ''ctx'' ''vm-1'' = Inr inst
          \<and> get_instance_type_by_name (nova_with (inst_in ''active'' None))
              ([] @ [API_get ''ctx'' ''vm-1'']) ''m1.large'' = Inr flavor
          \<and> compute_resize (nova_with (inst_in ''active'' None))
              ([] @ [API_get ''ctx'' ''vm-1'', Get_instance_type_by_name ''m1.large''])
              ''ctx'' inst (it_flavorid flavor) = Inr ())
       \<and> (\<forall>h1. \<exists>inst. compute_get (nova_with (inst_in ''active'' None)) h1 ''ctx'' ''vm-1'' = Inr inst
                  \<and> vm_state inst \<noteq> ''resized'')"
    by (simp add: nova_with_def inst_in_def)
  with c have 3: "resize_vm (nova_with (inst_in ''active'' None)) ''vm-1'' ''m1.large'' ''ctx'' []
                    = None"
    by blast
  from 1 2 3 show ?thesis by blast
qed

subsection \<open>Setting the password\<close>

text \<open>
  The handler names InstancePasswordSetFailed only: another failure of the provider's
  set-admin-password call, here an invalid instance state, reaches the caller.
\<close>

theorem set_password_for_vm_propagates:
  "set_password_for_vm
     ((nova_with (inst_in ''stopped'' None))
        \<lparr> compute_set_admin_password :=
            (\<lambda>h c i p. Inl (Nova_exception [InstanceInvalidState] ''not active'')) \<rparr>)
     ''vm-1'' ''secret'' ''ctx'' [] =
   (Inl (Provider (Nova_exception [InstanceInvalidState] ''not active'')),
    [API_get ''ctx'' ''vm-1'',
     API_set_admin_password ''ctx'' (inst_in ''stopped'' None) ''secret''])"
  by (simp add: set_password_for_vm_def bindM_def get_vm_found nova_with_def tryM_def
        call_api_def raiseM_def isinstance_def)

text \<open>
  C8, amended. For every uid the fetch returns an instance for, and every password:
  \<^verbatim>\<open>set_password_for_vm\<close> returns normally when the provider sets the password, and
  also when the provider's call fails with InstancePasswordSetFailed, which is logged as a
  warning and not propagated; a failure of any other class is propagated to the caller.
\<close>

theorem set_password_for_vm_policy:
  assumes "compute_get nv h ctx uid = Inr inst"
  shows "(compute_set_admin_password nv (h @ [API_get ctx uid]) ctx inst password = Inr () \<longrightarrow>
            set_password_for_vm nv uid password ctx h =
              (Inr (), h @ [API_get ctx uid, API_set_admin_password ctx inst password]))
       \<and> (\<forall>x. compute_set_admin_password nv (h @ [API_get ctx uid]) ctx inst password = Inl x
                \<and> isinstance x InstancePasswordSetFailed \<longrightarrow>
            set_password_for_vm nv uid password ctx h =
              (Inr (), h @ [API_get ctx uid, API_set_admin_password ctx inst password,
                            LOG_warn (''Unable to set password - driver might not support it! ''
                                      @ str x)]))
       \<and> (\<forall>x. compute_set_admin_password nv (h @ [API_get ctx uid]) ctx inst password = Inl x
                \<and> \<not> isinstance x InstancePasswordSetFailed \<longrightarrow>
            set_password_for_vm nv uid password ctx h =
              (Inl (Provider x),
               h @ [API_get ctx uid, API_set_admin_password ctx inst password]))"
  using assms
  by (simp add: set_password_for_vm_def bindM_def get_vm_found tryM_def call_api_def
        raiseM_def LOG_warnM_def)

theorem set_password_for_vm_policy_witness:
  "set_password_for_vm
     ((nova_with (inst_in ''active'' None))
        \<lparr> compute_set_admin_password :=
            (\<lambda>h c i p. Inl (Nova_exception [InstancePasswordSetFailed] ''no agent'')) \<rparr>)
     ''vm-1'' ''secret'' ''ctx'' [] =
     (Inr (), [API_get ''ctx'' ''vm-1'',
               API_set_admin_password ''ctx'' (inst_in ''active'' None) ''secret'',
               LOG_warn ''Unable to set password - driver might not support it! no agent''])
   \<and> set_password_for_vm (nova_with (inst_in ''active'' None)) ''vm-1'' ''secret'' ''ctx'' [] =
     (Inr (), [API_get ''ctx'' ''vm-1'',
               API_set_admin_password ''ctx'' (inst_in ''active'' None) ''secret''])
   \<and> set_password_for_vm
     ((nova_with (inst_in ''active'' None))
        \<lparr> compute_set_admin_password :=
            (\<lambda>h c i p. Inl (Nova_exception [OtherClass ''NotImplementedError''] '''')) \<rparr>)
     ''vm-1'' ''secret'' ''ctx'' [] =
     (Inl (Provider (Nova_exception [OtherClass ''NotImplementedError''] '''')),
      [API_get ''ctx'' ''vm-1'',
       API_set_admin_password ''ctx'' (inst_in ''active'' None) ''secret''])"
  using set_password_for_vm_policy
          [of "(nova_with (inst_in ''active'' None))
                 \<lparr> compute_set_admin_password :=
                     (\<lambda>h c i p. Inl (Nova_exception [InstancePasswordSetFailed] ''no agent'')) \<rparr>"
              "[]" "''ctx''" "''vm-1''" "inst_in ''active'' None" "''secret''"]
        set_password_for_vm_policy
          [of "nova_with (inst_in ''active'' None)"
              "[]" "''ctx''" "''vm-1''" "inst_in ''active'' None" "''secret''"]
        set_password_for_vm_policy
          [of "(nova_with (inst_in ''active'' None))
                 \<lparr> compute_set_admin_password :=
                     (\<lambda>h c i p. Inl (Nova_exception [OtherClass ''NotImplementedError''] '''')) \<rparr>"
              "[]" "''ctx''" "''vm-1''" "inst_in ''active'' None" "''secret''"]
  by (simp add: nova_with_def isinstance_def)

subsection \<open>The console\<close>

text \<open>
  With the console enabled and an instance that the provider does not know, the fetch
  fails and \<^verbatim>\<open>get_vnc\<close> raises HTTPError 404; nothing is logged.
\<close>

theorem get_vnc_unknown_instance:
  "get_vnc nova_unknown ''vm-1'' ''ctx'' [] =
     (Inl (HTTPError 404 ''VM not found!''), [API_get ''ctx'' ''vm-1''])"
  by (simp add: get_vnc_def bindM_def nova_unknown_def nova_with_def isinstance_def
        get_vm_not_found)

text \<open>
  C9, amended. \<^verbatim>\<open>get_vnc\<close> returns \<^verbatim>\<open>None\<close> without any call when the console is
  disabled. When it is enabled and the fetch returns the instance, a console request that
  the provider answers with InstanceNotFound gives \<^verbatim>\<open>None\<close> and a logged warning.
  When the fetch itself is answered with not-found, \<^verbatim>\<open>get_vnc\<close> fails with
  HTTPError 404.
\<close>

theorem get_vnc_policy:
  "(\<not> FLAGS_vnc_enabled nv \<longrightarrow> get_vnc nv uid ctx h = (Inr None, h))
   \<and> (FLAGS_vnc_enabled nv \<longrightarrow>
        (\<forall>inst x. compute_get nv h ctx uid = Inr inst
                   \<and> compute_get_vnc_console nv (h @ [API_get ctx uid]) ctx inst ''novnc'' = Inl x
                   \<and> isinstance x InstanceNotFound \<longrightarrow>
           get_vnc nv uid ctx h =
             (Inr None, h @ [API_get ctx uid, API_get_vnc_console ctx inst ''novnc'',
                             LOG_warn ''Console info is not available atm!''])))
   \<and> (FLAGS_vnc_enabled nv \<longrightarrow>
        (\<forall>x. compute_get nv h ctx uid = Inl x \<and> isinstance x NotFound \<longrightarrow>
           get_vnc nv uid ctx h =
             (Inl (HTTPError 404 ''VM not found!''), h @ [API_get ctx uid])))"
  by (auto simp add: get_vnc_def bindM_def get_vm_found get_vm_not_found tryM_def call_api_def
        raiseM_def LOG_warnM_def returnM_def)

theorem get_vnc_policy_witness:
  "get_vnc ((nova_with (inst_in ''active'' None)) \<lparr> FLAGS_vnc_enabled := False \<rparr>)
     ''vm-1'' ''ctx'' [] = (Inr None, [])
   \<and> get_vnc
       ((nova_with (inst_in ''active'' None))
          \<lparr> compute_get_vnc_console :=
              (\<lambda>h c i k. Inl (Nova_exception [InstanceNotFound, NotFound] ''gone'')) \<rparr>)
       ''vm-1'' ''ctx'' [] =
     (Inr None, [API_get ''ctx'' ''vm-1'',
                 API_get_vnc_console ''ctx'' (inst_in ''active'' None) ''novnc'',
                 LOG_warn ''Console info is not available atm!''])
   \<and> get_vnc nova_unknown ''vm-1'' ''ctx'' [] =
     (Inl (HTTPError 404 ''VM not found!''), [API_get ''ctx'' ''vm-1''])"
  using get_vnc_policy
          [of "(nova_with (inst_in ''active'' None)) \<lparr> FLAGS_vnc_enabled := False \<rparr>"
              "''vm-1''" "''ctx''" "[]"]
        get_vnc_policy
          [of "(nova_with (inst_in ''active'' None))
                 \<lparr> compute_get_vnc_console :=
                     (\<lambda>h c i k. Inl (Nova_exception [InstanceNotFound, NotFound] ''gone'')) \<rparr>"
              "''vm-1''" "''ctx''" "[]"]
        get_vnc_policy [of nova_unknown "''vm-1''" "''ctx''" "[]"]
  by (simp add: nova_with_def nova_unknown_def isinstance_def)

end
